theory Spec2Isabelle
  imports Main "HOL-Library.AList"
begin

section \<open>Values, strings and requests\<close>

text \<open>
  The panel is a set of Vue components written in TypeScript. Each component is embedded
  as pure functions over its reactive state: a handler takes the state and the answers
  of the outside world (the confirmation dialog, the HTTP response) and returns the new
  state together with the HTTP requests it issued.

  JavaScript strings are modelled by \<^typ>\<open>string\<close>: a character is a code unit below
  256, that is a code point of U+0000 to U+00FF, and the string operations below do on
  these what the JavaScript operations do. Text of the source beyond that range (the
  Chinese messages and labels) is written as an English ASCII stand-in.
\<close>

datatype json =
    JNull
  | JBool bool
  | JNum int
  | JStr string
  | JArr "json list"
  | JObj "(string \<times> json) list"

text \<open>
  The URLs are template strings over numeric ids; they are kept structured. The
  constructor names the path, the arguments are the interpolated ids.
\<close>

datatype endpoint =
    Servers                     \<comment> \<open>\<^verbatim>\<open>/servers/servers/\<close>\<close>
  | Server int                  \<comment> \<open>\<^verbatim>\<open>/servers/servers/${id}\<close>\<close>
  | SshExecute int              \<comment> \<open>\<^verbatim>\<open>/ssh_operations/servers/${id}/execute\<close>\<close>
  | ServerConfigFetch int       \<comment> \<open>\<^verbatim>\<open>/server_configs/servers/${id}/config\<close>\<close>
  | ServerConfigCheck int       \<comment> \<open>\<^verbatim>\<open>/server_configs/servers/${id}/config/check\<close>\<close>
  | XrayrConfigs int            \<comment> \<open>\<^verbatim>\<open>/xrayr-configs/servers/${id}/configs\<close>\<close>
  | XrayrConfig int int         \<comment> \<open>\<^verbatim>\<open>/xrayr-configs/servers/${id}/configs/${configId}\<close>\<close>

datatype http_method = GET | POST | PUT | DELETE

text \<open>
  A request body is an object literal: a finite map from keys to values. A key whose
  value is \<^verbatim>\<open>undefined\<close> is not serialised, so it is absent from the map; a key
  whose value is \<^verbatim>\<open>null\<close> is present with \<^const>\<open>JNull\<close>.
\<close>

type_synonym body = "string \<rightharpoonup> json"

record request =
  rq_method :: http_method
  rq_url :: endpoint
  rq_body :: "body option"

text \<open>\<^verbatim>\<open>x || undefined\<close> on a string: the empty string is falsy.\<close>

definition or_undefined :: "string \<Rightarrow> json option" where
  "or_undefined s = (if s = [] then None else Some (JStr s))"

definition startsWith :: "string \<Rightarrow> string \<Rightarrow> bool" where
  "startsWith s p = (take (length p) s = p)"

section \<open>Form validation\<close>

text \<open>
  The forms are Element Plus forms. \<^verbatim>\<open>formRef.validate()\<close> checks every form item
  that is mounted and has a \<^verbatim>\<open>prop\<close> against the rules registered under that prop;
  an item removed by \<^verbatim>\<open>v-if\<close> is not mounted and is not checked. A rule object is
  checked as the async-validator library does once the \<^verbatim>\<open>trigger\<close> key is
  dropped: an empty value fails exactly the rules with \<^verbatim>\<open>required: true\<close>; a
  non-empty string is checked for length range and pattern; a number is checked for
  range by a rule of \<^verbatim>\<open>type: 'number'\<close>.
\<close>

datatype field_value = Str string | Num int | Undefined

record rule =
  required :: bool
  type_number :: bool
  rmin :: "int option"
  rmax :: "int option"
  rpattern :: "(string \<Rightarrow> bool) option"
  message :: string

definition plain_rule :: rule where
  "plain_rule = \<lparr>required = False, type_number = False, rmin = None, rmax = None,
     rpattern = None, message = []\<rparr>"

definition in_range :: "rule \<Rightarrow> int \<Rightarrow> bool" where
  "in_range r n =
     ((case rmin r of None \<Rightarrow> True | Some lo \<Rightarrow> lo \<le> n) \<and>
      (case rmax r of None \<Rightarrow> True | Some hi \<Rightarrow> n \<le> hi))"

definition required_only :: "rule \<Rightarrow> bool" where
  "required_only r = (\<not> type_number r \<and> rmin r = None \<and> rmax r = None \<and> rpattern r = None)"

fun rule_passes :: "rule \<Rightarrow> field_value \<Rightarrow> bool" where
  "rule_passes r Undefined = (\<not> required r)"
| "rule_passes r (Str s) =
     (if s = [] then \<not> required r
      else if type_number r then False
      else in_range r (int (length s)) \<and>
           (case rpattern r of None \<Rightarrow> True | Some p \<Rightarrow> p s))"
| "rule_passes r (Num n) =
     (if type_number r then in_range r n else required_only r)"

text \<open>The messages of the rules a value fails, in rule order.\<close>

definition validate_field :: "rule list \<Rightarrow> field_value \<Rightarrow> string list" where
  "validate_field rs v = map message (filter (\<lambda>r. \<not> rule_passes r v) rs)"

type_synonym rules = "(string \<times> rule list) list"

definition rules_for :: "rules \<Rightarrow> string \<Rightarrow> rule list" where
  "rules_for rs prop = (case map_of rs prop of None \<Rightarrow> [] | Some l \<Rightarrow> l)"

text \<open>
  \<open>validate rs items\<close>: \<open>items\<close> are the mounted form items, each with its prop and
  the current value of the model under that prop. The result is the list of error
  messages; the promise of \<^verbatim>\<open>validate()\<close> resolves when it is empty and rejects
  otherwise.
\<close>

definition validate :: "rules \<Rightarrow> (string \<times> field_value) list \<Rightarrow> string list" where
  "validate rs items = concat (map (\<lambda>(prop, v). validate_field (rules_for rs prop) v) items)"

section \<open>CreateServer.vue\<close>

record CreateServer_formData =
  cs_name :: string
  cs_hostname :: string
  cs_port :: "int option"
  cs_username :: string
  cs_authMethod :: string
  cs_password :: string
  cs_privateKey :: string
  cs_description :: string

text \<open>The initial value of \<^verbatim>\<open>formData\<close>, also restored by \<^verbatim>\<open>resetForm\<close>.\<close>

definition CreateServer_initial :: CreateServer_formData where
  "CreateServer_initial =
     \<lparr>cs_name = [], cs_hostname = [], cs_port = Some 22, cs_username = [],
      cs_authMethod = ''password'', cs_password = [], cs_privateKey = [],
      cs_description = []\<rparr>"

text \<open>
  The object literal given to \<^verbatim>\<open>ref<FormRules>(...)\<close>. It reads
  \<^verbatim>\<open>formData.value.authMethod\<close> while it is being built, so it is a function of
  the form data at that moment.
\<close>

definition formRules_literal :: "CreateServer_formData \<Rightarrow> rules" where
  "formRules_literal fd =
    [(''name'',
        [plain_rule\<lparr>required := True, message := ''enter the server name''\<rparr>,
         plain_rule\<lparr>rmax := Some 100, message := ''server name longer than 100''\<rparr>]),
     (''hostname'',
        [plain_rule\<lparr>required := True, message := ''enter the hostname or IP''\<rparr>,
         plain_rule\<lparr>rmax := Some 255, message := ''hostname longer than 255''\<rparr>]),
     (''port'',
        [plain_rule\<lparr>required := True, message := ''enter the port''\<rparr>,
         plain_rule\<lparr>type_number := True, rmin := Some 1, rmax := Some 65535,
            message := ''port must be within 1-65535''\<rparr>]),
     (''username'',
        [plain_rule\<lparr>required := True, message := ''enter the SSH user name''\<rparr>,
         plain_rule\<lparr>rmax := Some 100, message := ''user name longer than 100''\<rparr>]),
     (''password'',
        [plain_rule\<lparr>required := (cs_authMethod fd = ''password'' \<or> cs_authMethod fd = ''both''),
            message := ''enter the SSH password''\<rparr>]),
     (''privateKey'',
        [plain_rule\<lparr>required := (cs_authMethod fd = ''privateKey'' \<or> cs_authMethod fd = ''both''),
            message := ''enter the SSH private key''\<rparr>])]"

text \<open>
  The component's \<^verbatim>\<open>formRules\<close>: the literal is evaluated once, when the script
  of the component runs, and \<^verbatim>\<open>formData\<close> holds its initial value then. Nothing
  rebuilds the rules when the user picks another \<^verbatim>\<open>authMethod\<close>.
\<close>

definition CreateServer_formRules :: rules where
  "CreateServer_formRules = formRules_literal CreateServer_initial"

definition port_value :: "int option \<Rightarrow> field_value" where
  "port_value p = (case p of None \<Rightarrow> Undefined | Some n \<Rightarrow> Num n)"

text \<open>
  The form items of the template with a prop, in template order. The password and the
  private-key item are under \<^verbatim>\<open>v-if\<close>.
\<close>

definition CreateServer_items :: "CreateServer_formData \<Rightarrow> (string \<times> field_value) list" where
  "CreateServer_items fd =
     [(''name'', Str (cs_name fd)),
      (''hostname'', Str (cs_hostname fd)),
      (''port'', port_value (cs_port fd)),
      (''username'', Str (cs_username fd)),
      (''authMethod'', Str (cs_authMethod fd))] @
     (if cs_authMethod fd = ''password'' \<or> cs_authMethod fd = ''both''
      then [(''password'', Str (cs_password fd))] else []) @
     (if cs_authMethod fd = ''privateKey'' \<or> cs_authMethod fd = ''both''
      then [(''privateKey'', Str (cs_privateKey fd))] else []) @
     [(''description'', Str (cs_description fd))]"

definition CreateServer_requestData :: "CreateServer_formData \<Rightarrow> body" where
  "CreateServer_requestData fd =
     (\<lambda>k. if k = ''name'' then Some (JStr (cs_name fd))
          else if k = ''hostname'' then Some (JStr (cs_hostname fd))
          else if k = ''port'' then map_option JNum (cs_port fd)
          else if k = ''username'' then Some (JStr (cs_username fd))
          else if k = ''password'' then or_undefined (cs_password fd)
          else if k = ''privateKey'' then or_undefined (cs_privateKey fd)
          else if k = ''description'' then or_undefined (cs_description fd)
          else None)"

text \<open>
  \<^verbatim>\<open>handleSubmit\<close>. \<open>ready\<close> says that the form reference and axios are there. The
  result is the request sent to the backend, if any: when validation rejects, the
  \<^verbatim>\<open>catch\<close> block shows a message and nothing is sent.
\<close>

definition CreateServer_handleSubmit :: "bool \<Rightarrow> CreateServer_formData \<Rightarrow> request option" where
  "CreateServer_handleSubmit ready fd =
     (if \<not> ready then None
      else if validate CreateServer_formRules (CreateServer_items fd) \<noteq> [] then None
      else Some \<lparr>rq_method = POST, rq_url = Servers,
                 rq_body = Some (CreateServer_requestData fd)\<rparr>)"

section \<open>Notices and HTTP errors\<close>

text \<open>
  A failed request rejects with an axios error; the handlers read
  \<^verbatim>\<open>error.response?.data?.detail\<close> and \<^verbatim>\<open>error.message\<close>, both of which
  may be missing. \<open>notice\<close> is what \<^verbatim>\<open>ElMessage\<close> shows.
\<close>

record http_error =
  detail :: "string option"
  error_message :: "string option"

datatype notice = Success string | Warning string | Error string

text \<open>\<^verbatim>\<open>detail || message || fallback\<close>: an empty string is falsy as well.\<close>

definition truthy_string :: "string option \<Rightarrow> bool" where
  "truthy_string s = (case s of None \<Rightarrow> False | Some t \<Rightarrow> t \<noteq> [])"

definition error_text :: "http_error \<Rightarrow> string \<Rightarrow> string" where
  "error_text e fallback =
     (if truthy_string (detail e) then the (detail e)
      else if truthy_string (error_message e) then the (error_message e)
      else fallback)"

text \<open>A numeric prop such as \<^verbatim>\<open>serverId\<close> is truthy when it is neither null nor 0.\<close>

definition truthy_id :: "int option \<Rightarrow> bool" where
  "truthy_id i = (case i of None \<Rightarrow> False | Some n \<Rightarrow> n \<noteq> 0)"

section \<open>The server record as the backend returns it\<close>

text \<open>
  The response object for one server. The components read the fields up to
  \<open>sr_updated_at\<close>; \<open>sr_password\<close> and \<open>sr_private_key\<close> stand for secret material that
  the object may carry besides.
\<close>

record server_response =
  sr_id :: int
  sr_name :: string
  sr_hostname :: string
  sr_port :: int
  sr_username :: string
  sr_has_private_key :: bool
  sr_has_password :: bool
  sr_description :: "string option"
  sr_created_at :: string
  sr_updated_at :: string
  sr_password :: "string option"
  sr_private_key :: "string option"

section \<open>ServerManagement.vue\<close>

record server_row =
  row_id :: int
  row_name :: string
  row_hostname :: string
  row_port :: int
  row_username :: string
  row_hasPrivateKey :: bool
  row_hasPassword :: bool
  row_createdAt :: string
  row_updatedAt :: string

record ServerManagement_state =
  sm_loading :: bool
  sm_serversList :: "server_row list"

text \<open>The arrow function given to \<^verbatim>\<open>response.data.map\<close> in \<^verbatim>\<open>loadServers\<close>.\<close>

definition server_row_of :: "server_response \<Rightarrow> server_row" where
  "server_row_of server =
     \<lparr>row_id = sr_id server,
      row_name = sr_name server,
      row_hostname = sr_hostname server,
      row_port = sr_port server,
      row_username = sr_username server,
      row_hasPrivateKey = sr_has_private_key server,
      row_hasPassword = sr_has_password server,
      row_createdAt = sr_created_at server,
      row_updatedAt = sr_updated_at server\<rparr>"

text \<open>
  \<^verbatim>\<open>loadServers\<close>: \<open>axios\<close> says whether axios was injected, \<open>answer\<close> is the
  outcome of \<^verbatim>\<open>GET /servers/servers/\<close>.
\<close>

definition loadServers ::
  "bool \<Rightarrow> ServerManagement_state \<Rightarrow> http_error + server_response list \<Rightarrow>
   ServerManagement_state \<times> notice list" where
  "loadServers axios st answer =
     (if \<not> axios then (st, [])
      else case answer of
        Inr data \<Rightarrow>
          (st\<lparr>sm_serversList := map server_row_of data, sm_loading := False\<rparr>, [])
      | Inl e \<Rightarrow>
          (st\<lparr>sm_loading := False\<rparr>,
           [Error (if truthy_string (detail e) then the (detail e)
                   else ''failed to load the server list'')]))"

section \<open>EditServer.vue\<close>

text \<open>
  The port input is bound with \<^verbatim>\<open>v-model.number\<close>: the model holds a number, or
  the typed text when that does not parse as one.
\<close>

record EditServer_form =
  es_name :: string
  es_hostname :: string
  es_port :: field_value
  es_username :: string
  es_authMethod :: string
  es_password :: string
  es_privateKey :: string
  es_description :: string

definition EditServer_initial :: EditServer_form where
  "EditServer_initial =
     \<lparr>es_name = [], es_hostname = [], es_port = Num 22, es_username = [],
      es_authMethod = ''password'', es_password = [], es_privateKey = [],
      es_description = []\<rparr>"

definition EditServer_rules :: rules where
  "EditServer_rules =
    [(''name'',
        [plain_rule\<lparr>required := True, message := ''enter the server name''\<rparr>,
         plain_rule\<lparr>rmax := Some 100, message := ''server name longer than 100''\<rparr>]),
     (''hostname'',
        [plain_rule\<lparr>required := True, message := ''enter the hostname or IP''\<rparr>,
         plain_rule\<lparr>rmax := Some 255, message := ''hostname longer than 255''\<rparr>]),
     (''port'',
        [plain_rule\<lparr>required := True, message := ''enter the port''\<rparr>,
         plain_rule\<lparr>type_number := True, rmin := Some 1, rmax := Some 65535,
            message := ''port must be within 1-65535''\<rparr>]),
     (''username'',
        [plain_rule\<lparr>required := True, message := ''enter the user name''\<rparr>,
         plain_rule\<lparr>rmax := Some 100, message := ''user name longer than 100''\<rparr>]),
     (''authMethod'',
        [plain_rule\<lparr>required := True, message := ''choose the authentication method''\<rparr>])]"

text \<open>The form items with a prop; the description item has none.\<close>

definition EditServer_items :: "EditServer_form \<Rightarrow> (string \<times> field_value) list" where
  "EditServer_items form =
     [(''name'', Str (es_name form)),
      (''hostname'', Str (es_hostname form)),
      (''port'', es_port form),
      (''username'', Str (es_username form)),
      (''authMethod'', Str (es_authMethod form))] @
     (if es_authMethod form = ''password'' \<or> es_authMethod form = ''both''
      then [(''password'', Str (es_password form))] else []) @
     (if es_authMethod form = ''key'' \<or> es_authMethod form = ''both''
      then [(''privateKey'', Str (es_privateKey form))] else [])"

text \<open>\<^verbatim>\<open>server.description || ''\<close>\<close>

definition or_empty :: "string option \<Rightarrow> string" where
  "or_empty s = (case s of None \<Rightarrow> [] | Some t \<Rightarrow> t)"

text \<open>
  \<^verbatim>\<open>loadServerInfo\<close>: \<open>answer\<close> is the outcome of \<^verbatim>\<open>GET /servers/servers/${serverId}\<close>.
  When the request fails the form is left as it is (the handler shows a message and emits
  \<^verbatim>\<open>cancel\<close>).
\<close>

definition loadServerInfo ::
  "bool \<Rightarrow> int \<Rightarrow> EditServer_form \<Rightarrow> http_error + server_response \<Rightarrow> EditServer_form" where
  "loadServerInfo axios serverId form answer =
     (if \<not> axios \<or> serverId = 0 then form
      else case answer of
        Inl e \<Rightarrow> form
      | Inr server \<Rightarrow>
          form\<lparr>es_name := sr_name server,
               es_hostname := sr_hostname server,
               es_port := Num (sr_port server),
               es_username := sr_username server,
               es_description := or_empty (sr_description server),
               es_authMethod :=
                 (if sr_has_private_key server \<and> sr_has_password server then ''both''
                  else if sr_has_private_key server then ''key''
                  else ''password'')\<rparr>)"

definition json_of_field :: "field_value \<Rightarrow> json option" where
  "json_of_field v = (case v of Str s \<Rightarrow> Some (JStr s) | Num n \<Rightarrow> Some (JNum n) | Undefined \<Rightarrow> None)"

text \<open>
  The request data of \<^verbatim>\<open>handleSubmit\<close>, built by the same sequence of assignments:
  the object literal, the two conditional additions, the two conditional overwrites
  with \<^verbatim>\<open>null\<close>.
\<close>

definition EditServer_requestData :: "EditServer_form \<Rightarrow> body" where
  "EditServer_requestData form =
     (let d0 = [''name'' \<mapsto> JStr (es_name form),
                ''hostname'' \<mapsto> JStr (es_hostname form),
                ''username'' \<mapsto> JStr (es_username form),
                ''description'' \<mapsto> JStr (es_description form)];
          d1 = (case json_of_field (es_port form) of None \<Rightarrow> d0 | Some p \<Rightarrow> d0(''port'' \<mapsto> p));
          d2 = (if es_password form \<noteq> [] then d1(''password'' \<mapsto> JStr (es_password form)) else d1);
          d3 = (if es_privateKey form \<noteq> [] then d2(''private_key'' \<mapsto> JStr (es_privateKey form)) else d2);
          d4 = (if es_authMethod form \<noteq> ''password'' \<and> es_authMethod form \<noteq> ''both''
                then d3(''password'' \<mapsto> JNull) else d3);
          d5 = (if es_authMethod form \<noteq> ''key'' \<and> es_authMethod form \<noteq> ''both''
                then d4(''private_key'' \<mapsto> JNull) else d4)
      in d5)"

text \<open>
  \<^verbatim>\<open>handleSubmit\<close>: the request sent, if any. \<open>ready\<close> says that axios and the form
  reference are there.
\<close>

definition EditServer_handleSubmit :: "bool \<Rightarrow> int \<Rightarrow> EditServer_form \<Rightarrow> request option" where
  "EditServer_handleSubmit ready serverId form =
     (if \<not> ready then None
      else if validate EditServer_rules (EditServer_items form) \<noteq> [] then None
      else Some \<lparr>rq_method = PUT, rq_url = Server serverId,
                 rq_body = Some (EditServer_requestData form)\<rparr>)"

section \<open>String operations\<close>

text \<open>
  The string methods the components call, on \<^typ>\<open>string\<close>. Of the code points up to
  U+00FF \<^verbatim>\<open>trim\<close> removes tab, line feed, vertical tab, form feed, carriage
  return, space and the no-break space U+00A0. \<^verbatim>\<open>toLowerCase\<close> adds 32 to the
  capitals \<open>A\<close> to \<open>Z\<close> and U+00C0 to U+00DE, the multiplication sign U+00D7 excepted, and
  leaves every other code point up to U+00FF as it is.
\<close>

definition nl :: string where
  "nl = [CHR 0x0A]"

definition is_whitespace :: "char \<Rightarrow> bool" where
  "is_whitespace c =
     (c \<in> set [CHR 0x09, CHR 0x0A, CHR 0x0B, CHR 0x0C, CHR 0x0D, CHR 0x20, CHR 0xA0])"

definition trim :: "string \<Rightarrow> string" where
  "trim s = rev (dropWhile is_whitespace (rev (dropWhile is_whitespace s)))"

definition endsWith :: "string \<Rightarrow> string \<Rightarrow> bool" where
  "endsWith s p = (length p \<le> length s \<and> drop (length s - length p) s = p)"

text \<open>
  \<^verbatim>\<open>s.split(sep)\<close>: the pieces between the occurrences of \<open>sep\<close>, found from the
  left without overlap. \<open>cur\<close> holds the current piece, reversed.
\<close>

function split_from :: "string \<Rightarrow> string \<Rightarrow> string \<Rightarrow> string list" where
  "split_from sep cur [] = [rev cur]"
| "split_from sep cur (c # cs) =
     (if sep \<noteq> [] \<and> startsWith (c # cs) sep
      then rev cur # split_from sep [] (drop (length sep) (c # cs))
      else split_from sep (c # cur) cs)"
  by pat_completeness auto
termination
  by (relation "measure (\<lambda>(sep, cur, s). length s)") (auto simp: neq_Nil_conv)

definition split :: "string \<Rightarrow> string \<Rightarrow> string list" where
  "split sep s = (if sep = [] then map (\<lambda>c. [c]) s else split_from sep [] s)"

fun join :: "string \<Rightarrow> string list \<Rightarrow> string" where
  "join sep [] = []"
| "join sep [x] = x"
| "join sep (x # y # ys) = x @ sep @ join sep (y # ys)"

definition to_lower_char :: "char \<Rightarrow> char" where
  "to_lower_char c =
     (let n = (of_char c :: nat)
      in if (65 \<le> n \<and> n \<le> 90) \<or> (192 \<le> n \<and> n \<le> 222 \<and> n \<noteq> 215)
         then char_of (n + 32) else c)"

definition toLowerCase :: "string \<Rightarrow> string" where
  "toLowerCase s = map to_lower_char s"

text \<open>\<^verbatim>\<open>s.includes(q)\<close>: \<open>q\<close> occurs in \<open>s\<close> at some position.\<close>

fun includes_str :: "string \<Rightarrow> string \<Rightarrow> bool" where
  "includes_str [] q = (q = [])"
| "includes_str (c # cs) q = (startsWith (c # cs) q \<or> includes_str cs q)"

section \<open>ServerConfigDialog.vue\<close>

text \<open>
  \<^verbatim>\<open>nameLine.replace(/^###|###$/g, '')\<close>: the global replace removes a match of
  \<^verbatim>\<open>^###\<close> at the start and then, in what follows it, a match of \<^verbatim>\<open>###$\<close> at
  the end.
\<close>

definition strip_marks :: "string \<Rightarrow> string" where
  "strip_marks s =
     (let r = (if startsWith s ''###'' then drop 3 s else s)
      in if endsWith r ''###'' then take (length r - 3) r else r)"

text \<open>
  The object \<^verbatim>\<open>configs\<close> is kept as the list of its own properties in the order
  in which \<^verbatim>\<open>Object.keys\<close> and \<^verbatim>\<open>v-for\<close> enumerate them: first the keys that
  are array indices (the decimal numerals of 0 to 4294967294, written without a leading
  zero), by ascending number, then the other keys in the order of their creation.
\<close>

definition is_digit :: "char \<Rightarrow> bool" where
  "is_digit c = (48 \<le> (of_char c :: int) \<and> (of_char c :: int) \<le> 57)"

definition decimal_value :: "string \<Rightarrow> int" where
  "decimal_value k = foldl (\<lambda>n c. 10 * n + ((of_char c :: int) - 48)) 0 k"

definition array_index :: "string \<Rightarrow> int option" where
  "array_index k =
     (if k \<noteq> [] \<and> list_all is_digit k \<and> (k = ''0'' \<or> take 1 k \<noteq> ''0'') \<and>
         decimal_value k \<le> 4294967294
      then Some (decimal_value k) else None)"

text \<open>A new property whose key is the array index \<open>n\<close> goes before the first property
  that is not an array index or is a greater one.\<close>

fun insert_index ::
  "int \<Rightarrow> string \<Rightarrow> string \<Rightarrow> (string \<times> string) list \<Rightarrow> (string \<times> string) list" where
  "insert_index n k v [] = [(k, v)]"
| "insert_index n k v (p # ps) =
     (case array_index (fst p) of
        Some m \<Rightarrow> if m < n then p # insert_index n k v ps else (k, v) # p # ps
      | None \<Rightarrow> (k, v) # p # ps)"

text \<open>
  \<^verbatim>\<open>configs[name] = value\<close>. An existing key keeps its place and takes the new
  value; a new key is placed as said above. \<^verbatim>\<open>__proto__\<close> is not an own property
  of a plain object: assigning a string to it leaves the object as it is.
\<close>

definition obj_assign :: "(string \<times> string) list \<Rightarrow> string \<Rightarrow> string \<Rightarrow> (string \<times> string) list" where
  "obj_assign configs k v =
     (if k = ''__proto__'' then configs
      else if map_of configs k \<noteq> None then AList.update k v configs
      else case array_index k of
             Some n \<Rightarrow> insert_index n k v configs
           | None \<Rightarrow> configs @ [(k, v)])"

text \<open>The body of \<^verbatim>\<open>sections.forEach\<close>, with \<^verbatim>\<open>configs\<close> passed through.\<close>

definition parse_section :: "(string \<times> string) list \<Rightarrow> string \<Rightarrow> (string \<times> string) list" where
  "parse_section configs section =
     (case split nl (trim section) of
        [] \<Rightarrow> configs
      | nameLine # rest \<Rightarrow>
          if nameLine \<noteq> [] then
            if startsWith nameLine ''###'' then
              (let name = trim (strip_marks nameLine);
                   value = trim (join nl rest)
               in if value \<noteq> [] then obj_assign configs name value else configs)
            else configs
          else configs)"

definition fallback_key :: string where
  "fallback_key = ''configuration''"

definition fallback_value :: string where
  "fallback_value = ''no detailed configuration: insufficient permission or unsupported command''"

text \<open>The parsing of the command output in \<^verbatim>\<open>fetchConfigData\<close>.\<close>

definition parse_stdout :: "string \<Rightarrow> (string \<times> string) list" where
  "parse_stdout output =
     (let sections = split (nl @ nl) output;
          configs = foldl parse_section [] sections
      in if length configs = 0 then obj_assign configs fallback_key fallback_value else configs)"

text \<open>
  \<^verbatim>\<open>fetchConfigData\<close>: the \<^verbatim>\<open>otherConfigs\<close> of the new \<^verbatim>\<open>configData\<close>, or
  \<open>None\<close> when the guard returns at once. \<open>answer\<close> is the outcome of the execute request,
  with \<^verbatim>\<open>response.data.stdout\<close> when it succeeds; a missing \<^verbatim>\<open>stdout\<close>
  throws inside the \<^verbatim>\<open>try\<close> like a failed request.
\<close>

definition ServerConfigDialog_fetchConfigData ::
  "bool \<Rightarrow> int option \<Rightarrow> http_error + string option \<Rightarrow> (string \<times> string) list option" where
  "ServerConfigDialog_fetchConfigData axios serverId answer =
     (if \<not> axios \<or> \<not> truthy_id serverId then None
      else case answer of
        Inr (Some output) \<Rightarrow> Some (parse_stdout output)
      | _ \<Rightarrow> Some [(''error'', ''failed to fetch the detailed configuration, check the SSH connection'')])"

section \<open>The XrayR configuration list\<close>

record XrayRConfig =
  xc_id :: int
  xc_name :: string
  xc_server_id :: int
  xc_server_hostname :: string
  xc_server_username :: string
  xc_config_path :: string
  xc_parsed_config :: json
  xc_description :: string
  xc_last_sync_at :: string
  xc_created_at :: string
  xc_updated_at :: string

text \<open>
  The data of the answer to the update request: an object with any of the fields of a
  configuration.
\<close>

record XrayRConfig_data =
  xd_id :: "int option"
  xd_name :: "string option"
  xd_server_id :: "int option"
  xd_server_hostname :: "string option"
  xd_server_username :: "string option"
  xd_config_path :: "string option"
  xd_parsed_config :: "json option"
  xd_description :: "string option"
  xd_last_sync_at :: "string option"
  xd_created_at :: "string option"
  xd_updated_at :: "string option"

definition pick :: "'a \<Rightarrow> 'a option \<Rightarrow> 'a" where
  "pick old new = (case new of None \<Rightarrow> old | Some v \<Rightarrow> v)"

text \<open>\<^verbatim>\<open>{ ...config, ...data }\<close>\<close>

definition spread :: "XrayRConfig \<Rightarrow> XrayRConfig_data \<Rightarrow> XrayRConfig" where
  "spread c d =
     \<lparr>xc_id = pick (xc_id c) (xd_id d),
      xc_name = pick (xc_name c) (xd_name d),
      xc_server_id = pick (xc_server_id c) (xd_server_id d),
      xc_server_hostname = pick (xc_server_hostname c) (xd_server_hostname d),
      xc_server_username = pick (xc_server_username c) (xd_server_username d),
      xc_config_path = pick (xc_config_path c) (xd_config_path d),
      xc_parsed_config = pick (xc_parsed_config c) (xd_parsed_config d),
      xc_description = pick (xc_description c) (xd_description d),
      xc_last_sync_at = pick (xc_last_sync_at c) (xd_last_sync_at d),
      xc_created_at = pick (xc_created_at c) (xd_created_at d),
      xc_updated_at = pick (xc_updated_at c) (xd_updated_at d)\<rparr>"

record ConfigForm =
  cf_name :: string
  cf_config_path :: string
  cf_description :: string

record XrayRConfigList_state =
  xl_configs :: "XrayRConfig list"
  xl_loading :: bool
  xl_searchQuery :: string
  xl_configFormVisible :: bool
  xl_editingConfig :: "XrayRConfig option"
  xl_configForm :: ConfigForm

definition is_line_terminator :: "char \<Rightarrow> bool" where
  "is_line_terminator c = (c = CHR 0x0A \<or> c = CHR 0x0D)"

text \<open>
  \<^verbatim>\<open>/^\/.+/.test(v)\<close>: a slash at the start, then at least one character that is not
  a line terminator.
\<close>

fun path_pattern :: "string \<Rightarrow> bool" where
  "path_pattern (c # d # rest) = (c = CHR ''/'' \<and> \<not> is_line_terminator d)"
| "path_pattern _ = False"

definition configFormRules :: rules where
  "configFormRules =
    [(''name'',
        [plain_rule\<lparr>required := True, message := ''enter the configuration name''\<rparr>,
         plain_rule\<lparr>rmin := Some 2, rmax := Some 50,
            message := ''configuration name must have 2 to 50 characters''\<rparr>]),
     (''config_path'',
        [plain_rule\<lparr>required := True, message := ''enter the configuration file path''\<rparr>,
         plain_rule\<lparr>rpattern := Some path_pattern,
            message := ''configuration path must start with a slash (/)''\<rparr>]),
     (''description'',
        [plain_rule\<lparr>rmax := Some 200, message := ''description longer than 200''\<rparr>])]"

definition configForm_items :: "ConfigForm \<Rightarrow> (string \<times> field_value) list" where
  "configForm_items f =
     [(''name'', Str (cf_name f)),
      (''config_path'', Str (cf_config_path f)),
      (''description'', Str (cf_description f))]"

definition filteredConfigs :: "XrayRConfigList_state \<Rightarrow> XrayRConfig list" where
  "filteredConfigs st =
     (if xl_searchQuery st = [] then xl_configs st
      else let query = toLowerCase (xl_searchQuery st)
           in filter (\<lambda>config. includes_str (toLowerCase (xc_name config)) query \<or>
                              includes_str (toLowerCase (xc_description config)) query)
                (xl_configs st))"

definition showEditDialog :: "XrayRConfigList_state \<Rightarrow> XrayRConfig \<Rightarrow> XrayRConfigList_state" where
  "showEditDialog st config =
     st\<lparr>xl_editingConfig := Some config,
        xl_configForm := \<lparr>cf_name = xc_name config, cf_config_path = xc_config_path config,
                       cf_description = xc_description config\<rparr>,
        xl_configFormVisible := True\<rparr>"

text \<open>\<^verbatim>\<open>xs.findIndex(p)\<close>, with \<open>None\<close> for -1.\<close>

fun findIndex :: "('a \<Rightarrow> bool) \<Rightarrow> 'a list \<Rightarrow> nat option" where
  "findIndex p [] = None"
| "findIndex p (x # xs) = (if p x then Some 0 else map_option Suc (findIndex p xs))"

definition configForm_body :: "ConfigForm \<Rightarrow> body" where
  "configForm_body f =
     [''name'' \<mapsto> JStr (cf_name f),
      ''config_path'' \<mapsto> JStr (cf_config_path f),
      ''description'' \<mapsto> JStr (cf_description f)]"

text \<open>
  \<^verbatim>\<open>submitConfigForm\<close>. \<open>formRef\<close> says that the form reference is set. \<open>put_answer\<close>
  and \<open>post_answer\<close> are the outcomes the backend gives to the update and the create
  request; the handler sends one of the two. The result is the new state, the requests
  sent and the notices shown. A rejected validation throws before the \<^verbatim>\<open>try\<close>:
  nothing is sent and the state stays.
\<close>

definition submitConfigForm ::
  "bool \<Rightarrow> int option \<Rightarrow> bool \<Rightarrow> XrayRConfigList_state \<Rightarrow>
   http_error + XrayRConfig_data \<Rightarrow> http_error + XrayRConfig \<Rightarrow>
   XrayRConfigList_state \<times> request list \<times> notice list" where
  "submitConfigForm axios serverId formRef st put_answer post_answer =
     (if \<not> axios \<or> \<not> truthy_id serverId then (st, [], [])
      else if \<not> formRef then (st, [], [])
      else if validate configFormRules (configForm_items (xl_configForm st)) \<noteq> [] then (st, [], [])
      else
        (case xl_editingConfig st of
           Some editing \<Rightarrow>
             (let rq = \<lparr>rq_method = PUT, rq_url = XrayrConfig (the serverId) (xc_id editing),
                        rq_body = Some (configForm_body (xl_configForm st))\<rparr>
              in case put_answer of
                   Inr data \<Rightarrow>
                     (let cs = xl_configs st;
                          cs' = (case findIndex (\<lambda>c. xc_id c = xc_id editing) cs of
                                   None \<Rightarrow> cs
                                 | Some index \<Rightarrow> cs[index := spread (cs ! index) data])
                      in (st\<lparr>xl_configs := cs', xl_configFormVisible := False, xl_loading := False\<rparr>,
                          [rq], [Success ''configuration updated'']))
                 | Inl e \<Rightarrow>
                     (st\<lparr>xl_loading := False\<rparr>, [rq],
                      [Error (error_text e ''failed to update the configuration'')]))
         | None \<Rightarrow>
             (let rq = \<lparr>rq_method = POST, rq_url = XrayrConfigs (the serverId),
                        rq_body = Some (configForm_body (xl_configForm st))\<rparr>
              in case post_answer of
                   Inr created \<Rightarrow>
                     (st\<lparr>xl_configs := xl_configs st @ [created], xl_configFormVisible := False,
                         xl_loading := False\<rparr>,
                      [rq], [Success ''configuration created''])
                 | Inl e \<Rightarrow>
                     (st\<lparr>xl_loading := False\<rparr>, [rq],
                      [Error (error_text e ''failed to create the configuration'')]))))"

text \<open>
  \<^verbatim>\<open>handleDelete\<close>. \<open>confirmed\<close> is the answer of the confirmation box (it rejects
  with \<^verbatim>\<open>'cancel'\<close> otherwise), \<open>answer\<close> the outcome of the delete request.
\<close>

definition handleDelete ::
  "bool \<Rightarrow> int option \<Rightarrow> XrayRConfigList_state \<Rightarrow> XrayRConfig \<Rightarrow> bool \<Rightarrow> http_error + unit \<Rightarrow>
   XrayRConfigList_state \<times> request list \<times> notice list" where
  "handleDelete axios serverId st config confirmed answer =
     (if \<not> axios \<or> \<not> truthy_id serverId then (st, [], [])
      else if \<not> confirmed then (st\<lparr>xl_loading := False\<rparr>, [], [])
      else
        (let rq = \<lparr>rq_method = DELETE, rq_url = XrayrConfig (the serverId) (xc_id config),
                   rq_body = None\<rparr>
         in case answer of
              Inr _ \<Rightarrow>
                (st\<lparr>xl_configs := filter (\<lambda>c. xc_id c \<noteq> xc_id config) (xl_configs st),
                    xl_loading := False\<rparr>,
                 [rq], [Success ''configuration deleted''])
            | Inl e \<Rightarrow>
                (st\<lparr>xl_loading := False\<rparr>, [rq],
                 [Error (error_text e ''failed to delete the configuration'')])))"

section \<open>The XrayR configuration dialog\<close>

text \<open>
  The data of the answer to the fetch request, as the dialog reads it. A field that is
  missing is \<open>None\<close>.
\<close>

record config_response =
  cr_success :: bool
  cr_config_content :: "string option"
  cr_parsed_config :: "json option"
  cr_error :: "string option"

record XrayRDialog_state =
  dlg_loading :: bool
  dlg_configData :: "config_response option"
  dlg_configPath :: string

text \<open>
  \<^verbatim>\<open>fetchConfigData\<close> of the dialog: one POST to the fetch endpoint with the
  configuration path. The answer replaces \<^verbatim>\<open>configData\<close> whether or not it reports
  success; only a failed request leaves it null.
\<close>

definition XrayRDialog_fetchConfigData ::
  "bool \<Rightarrow> int option \<Rightarrow> XrayRDialog_state \<Rightarrow> http_error + config_response \<Rightarrow>
   XrayRDialog_state \<times> request list \<times> notice list" where
  "XrayRDialog_fetchConfigData axios serverId st answer =
     (if \<not> axios \<or> \<not> truthy_id serverId then (st, [], [])
      else
        (let rq = \<lparr>rq_method = POST, rq_url = ServerConfigFetch (the serverId),
                   rq_body = Some [''config_path'' \<mapsto> JStr (dlg_configPath st),
                                   ''simplify'' \<mapsto> JBool False]\<rparr>
         in case answer of
              Inr data \<Rightarrow>
                (st\<lparr>dlg_configData := Some data, dlg_loading := False\<rparr>, [rq],
                 [if cr_success data then Success ''XrayR configuration fetched''
                  else Warning (''failed to fetch the XrayR configuration: '' @
                         (case cr_error data of None \<Rightarrow> ''undefined'' | Some e \<Rightarrow> e))])
            | Inl e \<Rightarrow>
                (st\<lparr>dlg_configData := None, dlg_loading := False\<rparr>, [rq],
                 [Error ''failed to fetch the XrayR configuration''])))"

text \<open>A parsed document is truthy unless it is null, false, 0 or the empty string.\<close>

definition truthy_json :: "json option \<Rightarrow> bool" where
  "truthy_json j =
     (case j of None \<Rightarrow> False | Some JNull \<Rightarrow> False | Some (JBool b) \<Rightarrow> b
      | Some (JNum n) \<Rightarrow> n \<noteq> 0 | Some (JStr s) \<Rightarrow> s \<noteq> [] | Some _ \<Rightarrow> True)"

datatype dialog_item =
    ConfigPathItem string
  | ConfigContentItem string
  | ParsedResultItem json
  | ErrorItem string

text \<open>
  The form items the template shows for the state when it is not loading: the path,
  then the content, the parsed result and the error, each of the three under its own
  \<^verbatim>\<open>v-if\<close>. The line with the server's name and address is left out.
\<close>

definition dialog_items :: "XrayRDialog_state \<Rightarrow> dialog_item list" where
  "dialog_items st =
     (case dlg_configData st of
        None \<Rightarrow> []
      | Some d \<Rightarrow>
          [ConfigPathItem (dlg_configPath st)] @
          (if truthy_string (cr_config_content d) then [ConfigContentItem (the (cr_config_content d))] else []) @
          (if truthy_json (cr_parsed_config d) then [ParsedResultItem (the (cr_parsed_config d))] else []) @
          (if truthy_string (cr_error d) then [ErrorItem (the (cr_error d))] else []))"

section \<open>The synchronisation engine\<close>

datatype session_error = NetworkError | TimeoutError | AuthError

record SyncedConfig =
  sc_config_path :: string
  sc_last_sync :: "nat option"
  sc_parsed_snapshot :: "json option"
  sc_raw_content :: "string option"
  sc_parse_error :: "string option"

text \<open>
  Modelled from the spec: \<open>fetch\<close> of the synchronisation engine, which belongs to the
  backend and is not among the source files. \<open>session\<close> is the outcome of reading the
  file over SSH, \<open>parse\<close> the parser of the declared format, \<open>now\<close> the call time. A
  session failure leaves the stored record untouched and is surfaced. Content that was
  read is retained and the last-sync time advances; when it does not parse, the parse
  error is recorded beside it and the fetch still returns normally.
\<close>

definition fetch ::
  "(string \<Rightarrow> string + json) \<Rightarrow> nat \<Rightarrow> session_error + string \<Rightarrow> SyncedConfig \<Rightarrow>
   SyncedConfig \<times> (session_error + unit)" where
  "fetch parse now session stored =
     (case session of
        Inl err \<Rightarrow> (stored, Inl err)
      | Inr raw \<Rightarrow>
          (case parse raw of
             Inr doc \<Rightarrow>
               (stored\<lparr>sc_last_sync := Some now, sc_parsed_snapshot := Some doc,
                       sc_raw_content := Some raw, sc_parse_error := None\<rparr>, Inr ())
           | Inl perr \<Rightarrow>
               (stored\<lparr>sc_last_sync := Some now, sc_raw_content := Some raw,
                       sc_parse_error := Some perr\<rparr>, Inr ())))"

section \<open>Notions used by the statements\<close>

text \<open>Two server records agree on every field that is not secret material.\<close>

definition same_public :: "server_response \<Rightarrow> server_response \<Rightarrow> bool" where
  "same_public s t =
     (sr_id s = sr_id t \<and> sr_name s = sr_name t \<and> sr_hostname s = sr_hostname t \<and>
      sr_port s = sr_port t \<and> sr_username s = sr_username t \<and>
      sr_has_private_key s = sr_has_private_key t \<and> sr_has_password s = sr_has_password t \<and>
      sr_description s = sr_description t \<and> sr_created_at s = sr_created_at t \<and>
      sr_updated_at s = sr_updated_at t)"

text \<open>\<open>q\<close> is a substring of \<open>s\<close>.\<close>

definition occurs_in :: "string \<Rightarrow> string \<Rightarrow> bool" where
  "occurs_in q s = (\<exists>ps ss. s = ps @ q @ ss)"

section \<open>Example inputs\<close>

text \<open>
  A create form with valid name, host, port and user, the private-key method selected
  and both credential fields empty.
\<close>

definition form_without_credentials :: CreateServer_formData where
  "form_without_credentials =
     \<lparr>cs_name = ''db1'', cs_hostname = ''10.0.0.5'', cs_port = Some 22, cs_username = ''root'',
      cs_authMethod = ''privateKey'', cs_password = [], cs_privateKey = [],
      cs_description = []\<rparr>"

text \<open>A valid edit form with the given method and both credential fields empty.\<close>

definition edit_form :: "string \<Rightarrow> EditServer_form" where
  "edit_form m =
     \<lparr>es_name = ''db1'', es_hostname = ''10.0.0.5'', es_port = Num 22, es_username = ''root'',
      es_authMethod = m, es_password = [], es_privateKey = [], es_description = []\<rparr>"

text \<open>A server record with the given presence flags and secret material.\<close>

definition server_example ::
  "bool \<Rightarrow> bool \<Rightarrow> string option \<Rightarrow> string option \<Rightarrow> server_response" where
  "server_example hk hp p k =
     \<lparr>sr_id = 1, sr_name = ''db1'', sr_hostname = ''10.0.0.5'', sr_port = 22,
      sr_username = ''root'', sr_has_private_key = hk, sr_has_password = hp,
      sr_description = None, sr_created_at = ''2025-01-01'', sr_updated_at = ''2025-01-02'',
      sr_password = p, sr_private_key = k\<rparr>"

definition config_example :: "int \<Rightarrow> string \<Rightarrow> string \<Rightarrow> XrayRConfig" where
  "config_example i n d =
     \<lparr>xc_id = i, xc_name = n, xc_server_id = 1, xc_server_hostname = ''10.0.0.5'',
      xc_server_username = ''root'', xc_config_path = ''/etc/XrayR/config.yml'',
      xc_parsed_config = JObj [(''Log'', JStr ''warning'')], xc_description = d,
      xc_last_sync_at = ''2025-01-03'', xc_created_at = ''2025-01-01'',
      xc_updated_at = ''2025-01-02''\<rparr>"

definition list_example :: XrayRConfigList_state where
  "list_example =
     \<lparr>xl_configs = [config_example 1 ''Main'' ''primary node'',
                    config_example 2 ''Backup'' ''spare'',
                    config_example 1 ''Shadow'' ''mirror of MAIN''],
      xl_loading = False, xl_searchQuery = ''MAIN'', xl_configFormVisible = True,
      xl_editingConfig = Some (config_example 1 ''Main'' ''primary node''),
      xl_configForm = \<lparr>cf_name = ''Main'', cf_config_path = ''/opt/xrayr.yml'',
                        cf_description = ''primary node''\<rparr>\<rparr>"

text \<open>An answer to the update request that carries the three edited fields only.\<close>

definition update_data_example :: XrayRConfig_data where
  "update_data_example =
     \<lparr>xd_id = None, xd_name = Some ''Main'', xd_server_id = None, xd_server_hostname = None,
      xd_server_username = None, xd_config_path = Some ''/opt/xrayr.yml'',
      xd_parsed_config = None, xd_description = Some ''primary node'',
      xd_last_sync_at = None, xd_created_at = None, xd_updated_at = None\<rparr>"

text \<open>
  An answer to the update request that carries the whole resource, with a snapshot and
  a last-sync time newer than those of the list.
\<close>

definition full_data_example :: XrayRConfig_data where
  "full_data_example =
     \<lparr>xd_id = Some 1, xd_name = Some ''Main'', xd_server_id = Some 1,
      xd_server_hostname = Some ''10.0.0.5'', xd_server_username = Some ''root'',
      xd_config_path = Some ''/opt/xrayr.yml'',
      xd_parsed_config = Some (JObj [(''Log'', JStr ''debug'')]),
      xd_description = Some ''primary node'', xd_last_sync_at = Some ''2025-02-01'',
      xd_created_at = Some ''2025-01-01'', xd_updated_at = Some ''2025-02-02''\<rparr>"

text \<open>A list with a name beyond ASCII (U+00C9) and a query in lower case (U+00E9).\<close>

definition latin_example :: XrayRConfigList_state where
  "latin_example =
     \<lparr>xl_configs = [config_example 3 (''CAF'' @ [CHR 0xC9]) ''bistro'',
                    config_example 4 ''Tea'' ''salon''],
      xl_loading = False, xl_searchQuery = ''caf'' @ [CHR 0xE9], xl_configFormVisible = False,
      xl_editingConfig = None,
      xl_configForm = \<lparr>cf_name = [], cf_config_path = [], cf_description = []\<rparr>\<rparr>"

text \<open>A parser that accepts one document only, and a stored record never synced.\<close>

definition parse_example :: "string \<Rightarrow> string + json" where
  "parse_example s =
     (if s = ''key: value'' then Inr (JObj [(''key'', JStr ''value'')])
      else Inl ''not a mapping'')"

definition stored_example :: SyncedConfig where
  "stored_example =
     \<lparr>sc_config_path = ''/etc/app/config.yml'', sc_last_sync = None,
      sc_parsed_snapshot = None, sc_raw_content = None, sc_parse_error = None\<rparr>"

section \<open>Properties\<close>

subsection \<open>Helper facts\<close>

lemma CreateServer_password_rule:
  "rules_for CreateServer_formRules ''password'' =
     [plain_rule\<lparr>required := True, message := ''enter the SSH password''\<rparr>]"
  by (simp add: rules_for_def CreateServer_formRules_def formRules_literal_def
      CreateServer_initial_def)

lemma CreateServer_privateKey_rule:
  "rules_for CreateServer_formRules ''privateKey'' =
     [plain_rule\<lparr>required := False, message := ''enter the SSH private key''\<rparr>]"
  by (simp add: rules_for_def CreateServer_formRules_def formRules_literal_def
      CreateServer_initial_def)

text \<open>
  With the password item mounted (methods \<open>password\<close> and \<open>both\<close>) an empty password is
  rejected and nothing is sent.
\<close>

lemma CreateServer_empty_password_blocked:
  "cs_password fd = [] \<Longrightarrow> cs_authMethod fd = ''password'' \<or> cs_authMethod fd = ''both'' \<Longrightarrow>
   CreateServer_handleSubmit ready fd = None"
  by (auto simp add: CreateServer_handleSubmit_def validate_def validate_field_def
      CreateServer_password_rule CreateServer_items_def plain_rule_def)

lemma startsWith_iff: "startsWith s p \<longleftrightarrow> (\<exists>ss. s = p @ ss)"
proof
  assume "startsWith s p"
  then have "s = p @ drop (length p) s"
    unfolding startsWith_def by (metis append_take_drop_id)
  then show "\<exists>ss. s = p @ ss" ..
next
  assume "\<exists>ss. s = p @ ss"
  then show "startsWith s p" by (auto simp: startsWith_def)
qed

lemma includes_str_iff: "includes_str s q \<longleftrightarrow> occurs_in q s"
proof (induction s)
  case Nil
  show ?case by (auto simp: occurs_in_def)
next
  case (Cons c cs)
  show ?case
  proof
    assume "includes_str (c # cs) q"
    then consider "startsWith (c # cs) q" | "includes_str cs q" by auto
    then show "occurs_in q (c # cs)"
    proof cases
      case 1
      then obtain ss where "c # cs = q @ ss" by (auto simp: startsWith_iff)
      then have "c # cs = [] @ q @ ss" by simp
      then show ?thesis unfolding occurs_in_def by blast
    next
      case 2
      then obtain ps ss where "cs = ps @ q @ ss" using Cons.IH by (auto simp: occurs_in_def)
      then have "c # cs = (c # ps) @ q @ ss" by simp
      then show ?thesis unfolding occurs_in_def by blast
    qed
  next
    assume "occurs_in q (c # cs)"
    then obtain ps ss where e: "c # cs = ps @ q @ ss" by (auto simp: occurs_in_def)
    show "includes_str (c # cs) q"
    proof (cases ps)
      case Nil
      with e have "startsWith (c # cs) q" by (auto simp: startsWith_iff)
      then show ?thesis by simp
    next
      case (Cons p ps')
      with e have "cs = ps' @ q @ ss" by simp
      then have "occurs_in q cs" unfolding occurs_in_def by blast
      then show ?thesis using Cons.IH by simp
    qed
  qed
qed

lemma config_path_rules:
  "rules_for configFormRules ''config_path'' =
     [plain_rule\<lparr>required := True, message := ''enter the configuration file path''\<rparr>,
      plain_rule\<lparr>rpattern := Some path_pattern,
         message := ''configuration path must start with a slash (/)''\<rparr>]"
  by (simp add: rules_for_def configFormRules_def)

lemma config_path_accept:
  "validate_field (rules_for configFormRules ''config_path'') (Str v) = [] \<longleftrightarrow> path_pattern v"
  by (cases v) (simp_all add: config_path_rules validate_field_def plain_rule_def in_range_def)

lemma path_pattern_iff:
  "path_pattern v \<longleftrightarrow> (\<exists>d rest. v = CHR ''/'' # d # rest \<and> \<not> is_line_terminator d)"
  by (cases v rule: path_pattern.cases) auto

lemma path_pattern_startsWith: "path_pattern v \<Longrightarrow> startsWith v ''/''"
  by (cases v rule: path_pattern.cases) (auto simp: startsWith_def)

lemma validate_config_path:
  "validate configFormRules (configForm_items f) = [] \<Longrightarrow> path_pattern (cf_config_path f)"
  using config_path_accept [of "cf_config_path f"]
  by (simp add: validate_def configForm_items_def)

lemma server_row_of_public: "same_public s t \<Longrightarrow> server_row_of s = server_row_of t"
  by (simp add: same_public_def server_row_of_def)

lemma map_server_row_of_public:
  "list_all2 same_public xs ys \<Longrightarrow> map server_row_of xs = map server_row_of ys"
  by (induction rule: list_all2_induct) (simp_all add: server_row_of_public)

lemma findIndex_Some:
  "findIndex p xs = Some i \<Longrightarrow> i < length xs \<and> p (xs ! i) \<and> (\<forall>j<i. \<not> p (xs ! j))"
proof (induction xs arbitrary: i)
  case Nil
  then show ?case by simp
next
  case (Cons x xs)
  show ?case
  proof (cases "p x")
    case True
    with Cons.prems show ?thesis by simp
  next
    case False
    with Cons.prems obtain k where k: "findIndex p xs = Some k" "i = Suc k"
      by auto
    from Cons.IH [OF k(1)] have "k < length xs" "p (xs ! k)" "\<forall>j<k. \<not> p (xs ! j)"
      by auto
    then show ?thesis
      using False k(2) by (auto simp: less_Suc_eq_0_disj)
  qed
qed

lemma findIndex_None: "findIndex p xs = None \<Longrightarrow> \<forall>x \<in> set xs. \<not> p x"
  by (induction xs) (auto split: if_splits)

lemma strip_marks_marker: "strip_marks (''###'' @ name @ ''###'') = name"
  by (simp add: strip_marks_def startsWith_def endsWith_def Let_def)

lemma map_of_insert_index:
  "map_of ps k = None \<Longrightarrow> map_of (insert_index n k v ps) = (map_of ps)(k \<mapsto> v)"
proof (induction ps)
  case Nil
  show ?case by simp
next
  case (Cons p ps)
  from Cons.prems have ne: "fst p \<noteq> k" and rest: "map_of ps k = None"
    by (cases p; simp split: if_splits)+
  from Cons.IH [OF rest] ne show ?case
    by (cases p) (auto split: option.splits simp: fun_upd_twist)
qed

lemma map_of_append_new:
  "map_of ps k = None \<Longrightarrow> map_of (ps @ [(k, v)]) = (map_of ps)(k \<mapsto> v)"
  by (auto simp: map_add_def fun_eq_iff split: option.splits)

lemma map_of_obj_assign:
  assumes "k \<noteq> ''__proto__''"
  shows "map_of (obj_assign configs k v) = (map_of configs)(k \<mapsto> v)"
proof (cases "map_of configs k")
  case (Some w)
  with assms show ?thesis
    by (simp add: obj_assign_def update_conv')
next
  case None
  show ?thesis
  proof (cases "array_index k")
    case (Some n)
    with None assms have "obj_assign configs k v = insert_index n k v configs"
      by (simp add: obj_assign_def)
    with None show ?thesis
      by (simp only: map_of_insert_index)
  next
    case absent: None
    with None assms have "obj_assign configs k v = configs @ [(k, v)]"
      by (simp add: obj_assign_def)
    with None show ?thesis
      by (simp only: map_of_append_new)
  qed
qed

lemma obj_assign_proto: "obj_assign configs ''__proto__'' v = configs"
  by (simp add: obj_assign_def)

lemma fallback_entry: "obj_assign [] fallback_key fallback_value = [(fallback_key, fallback_value)]"
  by (simp add: obj_assign_def fallback_key_def array_index_def list_all_def is_digit_def)

subsection \<open>Creating a server\<close>

text \<open>
  C1. The claim: whenever the password field and the private-key field of the create
  form are both empty, validation fails and no create request is sent, whichever
  authentication method is selected. The code does not do this for the private-key
  method: the private-key rule was built while the method was still \<open>password\<close>, so it
  never requires a value, and the password item is not mounted. The form below passes
  validation and is posted with neither credential.
\<close>

theorem CreateServer_posts_without_credentials:
  "cs_password form_without_credentials = [] \<and>
   cs_privateKey form_without_credentials = [] \<and>
   validate CreateServer_formRules (CreateServer_items form_without_credentials) = [] \<and>
   CreateServer_handleSubmit True form_without_credentials =
     Some \<lparr>rq_method = POST, rq_url = Servers,
            rq_body = Some (CreateServer_requestData form_without_credentials)\<rparr> \<and>
   CreateServer_requestData form_without_credentials ''password'' = None \<and>
   CreateServer_requestData form_without_credentials ''privateKey'' = None"
  by (simp add: CreateServer_handleSubmit_def validate_def validate_field_def rules_for_def
      CreateServer_formRules_def formRules_literal_def CreateServer_initial_def
      CreateServer_items_def plain_rule_def in_range_def required_only_def port_value_def
      CreateServer_requestData_def or_undefined_def form_without_credentials_def)

subsection \<open>Editing a server\<close>

text \<open>
  C2. For every edit submission that passes validation (a request is sent): when the
  method includes the password and the password field is empty, the body has no
  \<open>password\<close> key; when the method excludes the password, the body has \<open>password\<close> null;
  and the same for \<open>private_key\<close> with the methods that include or exclude the key.
\<close>

theorem EditServer_credentials_in_request:
  assumes "EditServer_handleSubmit ready serverId form = Some rq"
  shows "\<exists>b. rq_body rq = Some b \<and>
     ((es_authMethod form = ''password'' \<or> es_authMethod form = ''both'') \<and> es_password form = []
        \<longrightarrow> b ''password'' = None) \<and>
     (\<not> (es_authMethod form = ''password'' \<or> es_authMethod form = ''both'')
        \<longrightarrow> b ''password'' = Some JNull) \<and>
     ((es_authMethod form = ''key'' \<or> es_authMethod form = ''both'') \<and> es_privateKey form = []
        \<longrightarrow> b ''private_key'' = None) \<and>
     (\<not> (es_authMethod form = ''key'' \<or> es_authMethod form = ''both'')
        \<longrightarrow> b ''private_key'' = Some JNull)"
proof -
  from assms have "rq = \<lparr>rq_method = PUT, rq_url = Server serverId,
      rq_body = Some (EditServer_requestData form)\<rparr>"
    by (simp add: EditServer_handleSubmit_def split: if_splits)
  then have "rq_body rq = Some (EditServer_requestData form)"
    by simp
  moreover have "(es_authMethod form = ''password'' \<or> es_authMethod form = ''both'') \<and>
      es_password form = [] \<longrightarrow> EditServer_requestData form ''password'' = None"
    by (auto simp: EditServer_requestData_def Let_def json_of_field_def split: field_value.splits)
  moreover have "\<not> (es_authMethod form = ''password'' \<or> es_authMethod form = ''both'')
      \<longrightarrow> EditServer_requestData form ''password'' = Some JNull"
    by (auto simp: EditServer_requestData_def Let_def json_of_field_def split: field_value.splits)
  moreover have "(es_authMethod form = ''key'' \<or> es_authMethod form = ''both'') \<and>
      es_privateKey form = [] \<longrightarrow> EditServer_requestData form ''private_key'' = None"
    by (auto simp: EditServer_requestData_def Let_def json_of_field_def split: field_value.splits)
  moreover have "\<not> (es_authMethod form = ''key'' \<or> es_authMethod form = ''both'')
      \<longrightarrow> EditServer_requestData form ''private_key'' = Some JNull"
    by (auto simp: EditServer_requestData_def Let_def json_of_field_def split: field_value.splits)
  ultimately show ?thesis by blast
qed

lemma edit_form_sent:
  "m \<noteq> [] \<Longrightarrow>
   EditServer_handleSubmit True 7 (edit_form m) =
     Some \<lparr>rq_method = PUT, rq_url = Server 7,
            rq_body = Some (EditServer_requestData (edit_form m))\<rparr>"
  by (simp add: EditServer_handleSubmit_def edit_form_def validate_def validate_field_def
      rules_for_def EditServer_rules_def EditServer_items_def plain_rule_def in_range_def
      required_only_def)

theorem EditServer_credentials_in_request_witness:
  "EditServer_handleSubmit True 7 (edit_form ''key'') =
     Some \<lparr>rq_method = PUT, rq_url = Server 7,
            rq_body = Some (EditServer_requestData (edit_form ''key''))\<rparr> \<and>
   EditServer_requestData (edit_form ''key'') ''password'' = Some JNull \<and>
   EditServer_requestData (edit_form ''key'') ''private_key'' = None \<and>
   EditServer_requestData (edit_form ''password'') ''password'' = None \<and>
   EditServer_requestData (edit_form ''password'') ''private_key'' = Some JNull \<and>
   EditServer_requestData (edit_form ''both'') ''password'' = None \<and>
   EditServer_requestData (edit_form ''both'') ''private_key'' = None"
proof -
  have k: "EditServer_handleSubmit True 7 (edit_form ''key'') =
     Some \<lparr>rq_method = PUT, rq_url = Server 7,
            rq_body = Some (EditServer_requestData (edit_form ''key''))\<rparr>"
    by (simp add: edit_form_sent)
  have p: "EditServer_handleSubmit True 7 (edit_form ''password'') =
     Some \<lparr>rq_method = PUT, rq_url = Server 7,
            rq_body = Some (EditServer_requestData (edit_form ''password''))\<rparr>"
    by (simp add: edit_form_sent)
  have b: "EditServer_handleSubmit True 7 (edit_form ''both'') =
     Some \<lparr>rq_method = PUT, rq_url = Server 7,
            rq_body = Some (EditServer_requestData (edit_form ''both''))\<rparr>"
    by (simp add: edit_form_sent)
  have f: "es_authMethod (edit_form m) = m" "es_password (edit_form m) = []"
    "es_privateKey (edit_form m) = []" for m
    by (simp_all add: edit_form_def)
  from EditServer_credentials_in_request [OF k] have "
     EditServer_requestData (edit_form ''key'') ''password'' = Some JNull \<and>
     EditServer_requestData (edit_form ''key'') ''private_key'' = None"
    by (simp add: f)
  moreover from EditServer_credentials_in_request [OF p] have "
     EditServer_requestData (edit_form ''password'') ''password'' = None \<and>
     EditServer_requestData (edit_form ''password'') ''private_key'' = Some JNull"
    by (simp add: f)
  moreover from EditServer_credentials_in_request [OF b] have "
     EditServer_requestData (edit_form ''both'') ''password'' = None \<and>
     EditServer_requestData (edit_form ''both'') ''private_key'' = None"
    by (simp add: f)
  ultimately show ?thesis using k by blast
qed

text \<open>
  C8. When the server record is loaded into the edit form, the authentication method is
  determined by the two presence flags alone: key and password give \<open>both\<close>, key without
  password gives \<open>key\<close>, no key gives \<open>password\<close>; so a record with neither credential is
  shown as password authentication and is not rejected.
\<close>

theorem loadServerInfo_authMethod:
  "serverId \<noteq> 0 \<Longrightarrow>
    (sr_has_private_key server \<and> sr_has_password server \<longrightarrow>
       es_authMethod (loadServerInfo True serverId form (Inr server)) = ''both'') \<and>
    (sr_has_private_key server \<and> \<not> sr_has_password server \<longrightarrow>
       es_authMethod (loadServerInfo True serverId form (Inr server)) = ''key'') \<and>
    (\<not> sr_has_private_key server \<longrightarrow>
       es_authMethod (loadServerInfo True serverId form (Inr server)) = ''password'')"
  by (simp add: loadServerInfo_def)

theorem loadServerInfo_authMethod_witness:
  "es_authMethod (loadServerInfo True 1 EditServer_initial
      (Inr (server_example True True None None))) = ''both'' \<and>
   es_authMethod (loadServerInfo True 1 EditServer_initial
      (Inr (server_example True False None None))) = ''key'' \<and>
   es_authMethod (loadServerInfo True 1 EditServer_initial
      (Inr (server_example False True None None))) = ''password'' \<and>
   es_authMethod (loadServerInfo True 1 EditServer_initial
      (Inr (server_example False False None None))) = ''password''"
proof -
  have n: "(1::int) \<noteq> 0" by simp
  have f: "sr_has_private_key (server_example hk hp p k) = hk"
    "sr_has_password (server_example hk hp p k) = hp" for hk hp p k
    by (simp_all add: server_example_def)
  from loadServerInfo_authMethod [OF n, of "server_example True True None None" EditServer_initial]
    loadServerInfo_authMethod [OF n, of "server_example True False None None" EditServer_initial]
    loadServerInfo_authMethod [OF n, of "server_example False True None None" EditServer_initial]
    loadServerInfo_authMethod [OF n, of "server_example False False None None" EditServer_initial]
  show ?thesis by (simp add: f)
qed

subsection \<open>The read side\<close>

text \<open>
  C4. The list path and the detail path produce a view that depends on the non-secret
  fields of a server record only: two records (or two lists of records) that agree on
  id, name, hostname, port, user name, the two presence flags, description and
  timestamps give the same rows and the same edit form, whatever secret material they
  carry; and loading a record never writes the password or private-key field of the
  form.
\<close>

theorem read_side_ignores_secrets:
  "(list_all2 same_public xs ys \<longrightarrow>
      loadServers axios st (Inr xs) = loadServers axios st (Inr ys)) \<and>
   (same_public s t \<longrightarrow>
      loadServerInfo axios serverId form (Inr s) = loadServerInfo axios serverId form (Inr t)) \<and>
   es_password (loadServerInfo axios serverId form answer) = es_password form \<and>
   es_privateKey (loadServerInfo axios serverId form answer) = es_privateKey form"
proof -
  have a: "list_all2 same_public xs ys \<longrightarrow>
      loadServers axios st (Inr xs) = loadServers axios st (Inr ys)"
    by (simp add: loadServers_def map_server_row_of_public)
  have b: "same_public s t \<longrightarrow>
      loadServerInfo axios serverId form (Inr s) = loadServerInfo axios serverId form (Inr t)"
    by (simp add: loadServerInfo_def same_public_def)
  have c: "es_password (loadServerInfo axios serverId form answer) = es_password form"
    by (simp add: loadServerInfo_def split: sum.splits)
  have d: "es_privateKey (loadServerInfo axios serverId form answer) = es_privateKey form"
    by (simp add: loadServerInfo_def split: sum.splits)
  from a b c d show ?thesis by blast
qed

theorem read_side_ignores_secrets_witness:
  "server_example False True (Some ''secret'') None \<noteq>
     server_example False True None (Some ''KEY'') \<and>
   loadServers True \<lparr>sm_loading = True, sm_serversList = []\<rparr>
       (Inr [server_example False True (Some ''secret'') None]) =
     loadServers True \<lparr>sm_loading = True, sm_serversList = []\<rparr>
       (Inr [server_example False True None (Some ''KEY'')]) \<and>
   loadServerInfo True 1 EditServer_initial (Inr (server_example False True (Some ''secret'') None)) =
     loadServerInfo True 1 EditServer_initial (Inr (server_example False True None (Some ''KEY'')))"
proof -
  have h: "same_public (server_example False True (Some ''secret'') None)
      (server_example False True None (Some ''KEY''))"
    by (simp add: same_public_def server_example_def)
  have hs: "list_all2 same_public [server_example False True (Some ''secret'') None]
      [server_example False True None (Some ''KEY'')]"
    using h by simp
  have ne: "server_example False True (Some ''secret'') None \<noteq>
      server_example False True None (Some ''KEY'')"
    by (simp add: server_example_def)
  from read_side_ignores_secrets [where xs = "[server_example False True (Some ''secret'') None]"
      and ys = "[server_example False True None (Some ''KEY'')]"
      and axios = True and st = "\<lparr>sm_loading = True, sm_serversList = []\<rparr>"
      and s = "server_example False True (Some ''secret'') None"
      and t = "server_example False True None (Some ''KEY'')"
      and serverId = 1 and form = EditServer_initial] h hs ne
  show ?thesis by blast
qed

subsection \<open>The configuration list\<close>

text \<open>
  C3 as claimed: the path rule accepts a string exactly when it starts with a slash. It
  does not: the pattern wants a further character after the slash, so the path that is
  the slash alone starts with a slash and is rejected.
\<close>

theorem config_path_slash_only_rejected:
  "startsWith ''/'' ''/'' \<and>
   validate_field (rules_for configFormRules ''config_path'') (Str ''/'') \<noteq> []"
  by (simp add: startsWith_def config_path_rules validate_field_def plain_rule_def in_range_def)

text \<open>
  C3 amended. The configuration path is accepted exactly when it is a slash followed by
  at least one more character, the first of which is not a line terminator. A path that
  does not start with a slash fails validation, and then the submit handler sends no
  request and leaves the state as it is: no configuration with such a path is sent for
  registration or update.
\<close>

theorem config_path_validation:
  "(validate_field (rules_for configFormRules ''config_path'') (Str v) = [] \<longleftrightarrow>
      (\<exists>d rest. v = CHR ''/'' # d # rest \<and> \<not> is_line_terminator d)) \<and>
   (\<not> startsWith (cf_config_path (xl_configForm st)) ''/'' \<longrightarrow>
      validate configFormRules (configForm_items (xl_configForm st)) \<noteq> [] \<and>
      submitConfigForm axios serverId formRef st put_answer post_answer = (st, [], []))"
proof -
  have a: "validate_field (rules_for configFormRules ''config_path'') (Str v) = [] \<longleftrightarrow>
      (\<exists>d rest. v = CHR ''/'' # d # rest \<and> \<not> is_line_terminator d)"
    using config_path_accept path_pattern_iff by simp
  have b: "validate configFormRules (configForm_items (xl_configForm st)) \<noteq> []"
    if "\<not> startsWith (cf_config_path (xl_configForm st)) ''/''"
    using that validate_config_path path_pattern_startsWith by blast
  have c: "submitConfigForm axios serverId formRef st put_answer post_answer = (st, [], [])"
    if "validate configFormRules (configForm_items (xl_configForm st)) \<noteq> []"
    using that by (simp add: submitConfigForm_def)
  from a b c show ?thesis by blast
qed

theorem config_path_validation_witness:
  "validate_field (rules_for configFormRules ''config_path'') (Str ''/etc/XrayR/config.yml'') = [] \<and>
   \<not> startsWith ''etc/XrayR/config.yml'' ''/'' \<and>
   submitConfigForm True (Some 1) True
       (list_example\<lparr>xl_configForm := \<lparr>cf_name = ''Main'', cf_config_path = ''etc/XrayR/config.yml'',
                                         cf_description = []\<rparr>\<rparr>)
       (Inr update_data_example) (Inl \<lparr>detail = None, error_message = None\<rparr>) =
     (list_example\<lparr>xl_configForm := \<lparr>cf_name = ''Main'', cf_config_path = ''etc/XrayR/config.yml'',
                                        cf_description = []\<rparr>\<rparr>, [], [])"
proof -
  let ?st = "list_example\<lparr>xl_configForm := \<lparr>cf_name = ''Main'',
      cf_config_path = ''etc/XrayR/config.yml'', cf_description = []\<rparr>\<rparr>"
  have p: "cf_config_path (xl_configForm ?st) = ''etc/XrayR/config.yml''"
    by simp
  have n: "\<not> startsWith ''etc/XrayR/config.yml'' ''/''"
    by (simp add: startsWith_def)
  have e: "\<exists>d rest. ''/etc/XrayR/config.yml'' = CHR ''/'' # d # rest \<and> \<not> is_line_terminator d"
    by (simp add: is_line_terminator_def)
  from config_path_validation [where v = "''/etc/XrayR/config.yml''" and st = ?st
      and axios = True and serverId = "Some 1" and formRef = True
      and put_answer = "Inr update_data_example"
      and post_answer = "Inl \<lparr>detail = None, error_message = None\<rparr>"] p n e
  show ?thesis by simp
qed

text \<open>
  C9. With an empty query the filtered list is the whole list, unchanged and in order.
  With any other query it is the list filtered, in order, by: the lower-cased query is a
  substring of the lower-cased name or of the lower-cased description.
\<close>

theorem filteredConfigs_spec:
  "(xl_searchQuery st = [] \<longrightarrow> filteredConfigs st = xl_configs st) \<and>
   (xl_searchQuery st \<noteq> [] \<longrightarrow>
      filteredConfigs st =
        filter (\<lambda>c. occurs_in (toLowerCase (xl_searchQuery st)) (toLowerCase (xc_name c)) \<or>
                    occurs_in (toLowerCase (xl_searchQuery st)) (toLowerCase (xc_description c)))
          (xl_configs st))"
  by (simp add: filteredConfigs_def Let_def includes_str_iff)

theorem filteredConfigs_spec_witness:
  "filteredConfigs (list_example\<lparr>xl_searchQuery := []\<rparr>) = xl_configs list_example \<and>
   filteredConfigs list_example =
     [config_example 1 ''Main'' ''primary node'', config_example 1 ''Shadow'' ''mirror of MAIN''] \<and>
   toLowerCase (''CAF'' @ [CHR 0xC9]) = ''caf'' @ [CHR 0xE9] \<and>
   filteredConfigs latin_example = [config_example 3 (''CAF'' @ [CHR 0xC9]) ''bistro'']"
proof -
  have q: "xl_searchQuery list_example \<noteq> []" "xl_searchQuery latin_example \<noteq> []"
    by (simp_all add: list_example_def latin_example_def)
  have ev: "filter (\<lambda>c. includes_str (toLowerCase (xc_name c)) (toLowerCase (xl_searchQuery list_example)) \<or>
                       includes_str (toLowerCase (xc_description c)) (toLowerCase (xl_searchQuery list_example)))
              (xl_configs list_example) =
     [config_example 1 ''Main'' ''primary node'', config_example 1 ''Shadow'' ''mirror of MAIN'']"
    by code_simp
  have ev': "filter (\<lambda>c. includes_str (toLowerCase (xc_name c)) (toLowerCase (xl_searchQuery latin_example)) \<or>
                       includes_str (toLowerCase (xc_description c)) (toLowerCase (xl_searchQuery latin_example)))
              (xl_configs latin_example) =
     [config_example 3 (''CAF'' @ [CHR 0xC9]) ''bistro'']"
    by code_simp
  have lc: "toLowerCase (''CAF'' @ [CHR 0xC9]) = ''caf'' @ [CHR 0xE9]"
    by code_simp
  have "filteredConfigs (list_example\<lparr>xl_searchQuery := []\<rparr>) = xl_configs list_example"
    using filteredConfigs_spec [of "list_example\<lparr>xl_searchQuery := []\<rparr>"] by simp
  moreover have "filteredConfigs list_example =
        filter (\<lambda>c. occurs_in (toLowerCase (xl_searchQuery list_example)) (toLowerCase (xc_name c)) \<or>
                    occurs_in (toLowerCase (xl_searchQuery list_example)) (toLowerCase (xc_description c)))
          (xl_configs list_example)"
    using filteredConfigs_spec [of list_example] q by blast
  then have "filteredConfigs list_example =
     [config_example 1 ''Main'' ''primary node'', config_example 1 ''Shadow'' ''mirror of MAIN'']"
    by (simp only: includes_str_iff [symmetric] ev)
  moreover have "filteredConfigs latin_example =
        filter (\<lambda>c. occurs_in (toLowerCase (xl_searchQuery latin_example)) (toLowerCase (xc_name c)) \<or>
                    occurs_in (toLowerCase (xl_searchQuery latin_example)) (toLowerCase (xc_description c)))
          (xl_configs latin_example)"
    using filteredConfigs_spec [of latin_example] q by blast
  then have "filteredConfigs latin_example = [config_example 3 (''CAF'' @ [CHR 0xC9]) ''bistro'']"
    by (simp only: includes_str_iff [symmetric] ev')
  ultimately show ?thesis using lc by blast
qed

text \<open>
  C5. A confirmed deletion of a configuration sends one request, the DELETE of that
  configuration's metadata, whatever the backend answers: no request runs a command or
  fetches the remote file. When the backend accepts it, the new local list is the old
  one without the entries whose id is the deleted one; every other entry stays, as it
  was and in its place.
\<close>

theorem handleDelete_frame:
  assumes "sid \<noteq> 0"
  shows "fst (snd (handleDelete True (Some sid) st c True answer)) =
           [\<lparr>rq_method = DELETE, rq_url = XrayrConfig sid (xc_id c), rq_body = None\<rparr>] \<and>
         xl_configs (fst (handleDelete True (Some sid) st c True (Inr ()))) =
           filter (\<lambda>x. xc_id x \<noteq> xc_id c) (xl_configs st) \<and>
         (\<forall>x \<in> set (xl_configs st). xc_id x \<noteq> xc_id c \<longrightarrow>
             x \<in> set (xl_configs (fst (handleDelete True (Some sid) st c True (Inr ())))))"
  using assms by (auto simp: handleDelete_def truthy_id_def Let_def split: sum.splits)

theorem handleDelete_frame_witness:
  "fst (snd (handleDelete True (Some 1) list_example (config_example 1 ''Main'' ''primary node'')
       True (Inr ()))) =
     [\<lparr>rq_method = DELETE, rq_url = XrayrConfig 1 1, rq_body = None\<rparr>] \<and>
   xl_configs (fst (handleDelete True (Some 1) list_example
       (config_example 1 ''Main'' ''primary node'') True (Inr ()))) =
     [config_example 2 ''Backup'' ''spare'']"
proof -
  have n: "(1::int) \<noteq> 0" by simp
  have i: "xc_id (config_example i m d) = i" for i m d
    by (simp add: config_example_def)
  have l: "xl_configs list_example =
     [config_example 1 ''Main'' ''primary node'', config_example 2 ''Backup'' ''spare'',
      config_example 1 ''Shadow'' ''mirror of MAIN'']"
    by (simp add: list_example_def)
  from handleDelete_frame [OF n, of list_example "config_example 1 ''Main'' ''primary node''" "Inr ()"]
  show ?thesis by (simp add: i l)
qed

text \<open>
  C6 as claimed: the update only sends the PUT and merges the answer, so the parsed
  snapshot and the last-sync time are not refreshed by the update. The requests are as
  claimed, but the merge copies every field of the answer: when the backend answers with
  the whole resource, the entry in the list takes the answer's snapshot and last-sync
  time. Below, the first entry had the snapshot with \<open>warning\<close> and the time
  \<open>2025-01-03\<close>, and after the update it has the answer's.
\<close>

theorem submitConfigForm_update_copies_snapshot:
  "map xc_last_sync_at (xl_configs list_example) = [''2025-01-03'', ''2025-01-03'', ''2025-01-03''] \<and>
   map xc_last_sync_at (xl_configs (fst (submitConfigForm True (Some 1) True list_example
       (Inr full_data_example) (Inl \<lparr>detail = None, error_message = None\<rparr>)))) =
     [''2025-02-01'', ''2025-01-03'', ''2025-01-03''] \<and>
   map xc_parsed_config (xl_configs list_example) =
     [JObj [(''Log'', JStr ''warning'')], JObj [(''Log'', JStr ''warning'')],
      JObj [(''Log'', JStr ''warning'')]] \<and>
   map xc_parsed_config (xl_configs (fst (submitConfigForm True (Some 1) True list_example
       (Inr full_data_example) (Inl \<lparr>detail = None, error_message = None\<rparr>)))) =
     [JObj [(''Log'', JStr ''debug'')], JObj [(''Log'', JStr ''warning'')],
      JObj [(''Log'', JStr ''warning'')]]"
  by (simp add: submitConfigForm_def truthy_id_def validate_def validate_field_def rules_for_def
      configFormRules_def configForm_items_def list_example_def plain_rule_def in_range_def
      is_line_terminator_def config_example_def full_data_example_def spread_def pick_def
      Let_def)

text \<open>
  C6 amended. A valid update of an existing configuration, whatever it changes, sends
  one request whatever the backend answers: the PUT of that configuration with the
  name, the path and the description of the form. No request fetches or parses the
  remote file. When the backend accepts it, the first local entry with the edited id
  becomes the spread of the old entry and the answer, and no other entry changes: the
  parsed snapshot and the last-sync time of that entry are the answer's when the answer
  carries them and stay as they were when it does not. When the backend refuses, the
  list stays as it was.
\<close>

theorem submitConfigForm_update_frame:
  assumes sid: "sid \<noteq> 0"
    and editing: "xl_editingConfig st = Some e"
    and valid: "validate configFormRules (configForm_items (xl_configForm st)) = []"
  shows "fst (snd (submitConfigForm True (Some sid) True st put_answer post_answer)) =
           [\<lparr>rq_method = PUT, rq_url = XrayrConfig sid (xc_id e),
             rq_body = Some [''name'' \<mapsto> JStr (cf_name (xl_configForm st)),
                             ''config_path'' \<mapsto> JStr (cf_config_path (xl_configForm st)),
                             ''description'' \<mapsto> JStr (cf_description (xl_configForm st))]\<rparr>] \<and>
         xl_configs (fst (submitConfigForm True (Some sid) True st (Inr data) post_answer)) =
           (case findIndex (\<lambda>c. xc_id c = xc_id e) (xl_configs st) of
              None \<Rightarrow> xl_configs st
            | Some i \<Rightarrow> (xl_configs st)[i := spread (xl_configs st ! i) data]) \<and>
         spread c data =
           \<lparr>xc_id = (case xd_id data of None \<Rightarrow> xc_id c | Some v \<Rightarrow> v),
            xc_name = (case xd_name data of None \<Rightarrow> xc_name c | Some v \<Rightarrow> v),
            xc_server_id = (case xd_server_id data of None \<Rightarrow> xc_server_id c | Some v \<Rightarrow> v),
            xc_server_hostname =
              (case xd_server_hostname data of None \<Rightarrow> xc_server_hostname c | Some v \<Rightarrow> v),
            xc_server_username =
              (case xd_server_username data of None \<Rightarrow> xc_server_username c | Some v \<Rightarrow> v),
            xc_config_path = (case xd_config_path data of None \<Rightarrow> xc_config_path c | Some v \<Rightarrow> v),
            xc_parsed_config =
              (case xd_parsed_config data of None \<Rightarrow> xc_parsed_config c | Some v \<Rightarrow> v),
            xc_description = (case xd_description data of None \<Rightarrow> xc_description c | Some v \<Rightarrow> v),
            xc_last_sync_at = (case xd_last_sync_at data of None \<Rightarrow> xc_last_sync_at c | Some v \<Rightarrow> v),
            xc_created_at = (case xd_created_at data of None \<Rightarrow> xc_created_at c | Some v \<Rightarrow> v),
            xc_updated_at = (case xd_updated_at data of None \<Rightarrow> xc_updated_at c | Some v \<Rightarrow> v)\<rparr> \<and>
         map xc_parsed_config
             (xl_configs (fst (submitConfigForm True (Some sid) True st (Inr data) post_answer))) =
           (case findIndex (\<lambda>c. xc_id c = xc_id e) (xl_configs st) of
              None \<Rightarrow> map xc_parsed_config (xl_configs st)
            | Some i \<Rightarrow> (map xc_parsed_config (xl_configs st))
                [i := (case xd_parsed_config data of
                         None \<Rightarrow> xc_parsed_config (xl_configs st ! i)
                       | Some p \<Rightarrow> p)]) \<and>
         map xc_last_sync_at
             (xl_configs (fst (submitConfigForm True (Some sid) True st (Inr data) post_answer))) =
           (case findIndex (\<lambda>c. xc_id c = xc_id e) (xl_configs st) of
              None \<Rightarrow> map xc_last_sync_at (xl_configs st)
            | Some i \<Rightarrow> (map xc_last_sync_at (xl_configs st))
                [i := (case xd_last_sync_at data of
                         None \<Rightarrow> xc_last_sync_at (xl_configs st ! i)
                       | Some t \<Rightarrow> t)]) \<and>
         xl_configs (fst (submitConfigForm True (Some sid) True st (Inl err) post_answer)) =
           xl_configs st"
proof -
  let ?cs = "case findIndex (\<lambda>c. xc_id c = xc_id e) (xl_configs st) of
               None \<Rightarrow> xl_configs st
             | Some i \<Rightarrow> (xl_configs st)[i := spread (xl_configs st ! i) data]"
  from sid have t: "truthy_id (Some sid)"
    by (simp add: truthy_id_def)
  have r1: "fst (snd (submitConfigForm True (Some sid) True st put_answer post_answer)) =
           [\<lparr>rq_method = PUT, rq_url = XrayrConfig sid (xc_id e),
             rq_body = Some [''name'' \<mapsto> JStr (cf_name (xl_configForm st)),
                             ''config_path'' \<mapsto> JStr (cf_config_path (xl_configForm st)),
                             ''description'' \<mapsto> JStr (cf_description (xl_configForm st))]\<rparr>]"
    using t editing valid
    by (simp add: submitConfigForm_def configForm_body_def Let_def split: sum.splits)
  have r2: "xl_configs (fst (submitConfigForm True (Some sid) True st (Inr data) post_answer)) = ?cs"
    using t editing valid by (simp add: submitConfigForm_def Let_def)
  have r3: "map xc_parsed_config ?cs =
           (case findIndex (\<lambda>c. xc_id c = xc_id e) (xl_configs st) of
              None \<Rightarrow> map xc_parsed_config (xl_configs st)
            | Some i \<Rightarrow> (map xc_parsed_config (xl_configs st))
                [i := (case xd_parsed_config data of
                         None \<Rightarrow> xc_parsed_config (xl_configs st ! i)
                       | Some p \<Rightarrow> p)])"
    by (simp add: map_update spread_def pick_def split: option.splits)
  have r4: "map xc_last_sync_at ?cs =
           (case findIndex (\<lambda>c. xc_id c = xc_id e) (xl_configs st) of
              None \<Rightarrow> map xc_last_sync_at (xl_configs st)
            | Some i \<Rightarrow> (map xc_last_sync_at (xl_configs st))
                [i := (case xd_last_sync_at data of
                         None \<Rightarrow> xc_last_sync_at (xl_configs st ! i)
                       | Some t \<Rightarrow> t)])"
    by (simp add: map_update spread_def pick_def split: option.splits)
  have r5: "xl_configs (fst (submitConfigForm True (Some sid) True st (Inl err) post_answer)) =
           xl_configs st"
    using t editing valid by (simp add: submitConfigForm_def Let_def)
  have r6: "spread c data =
           \<lparr>xc_id = (case xd_id data of None \<Rightarrow> xc_id c | Some v \<Rightarrow> v),
            xc_name = (case xd_name data of None \<Rightarrow> xc_name c | Some v \<Rightarrow> v),
            xc_server_id = (case xd_server_id data of None \<Rightarrow> xc_server_id c | Some v \<Rightarrow> v),
            xc_server_hostname =
              (case xd_server_hostname data of None \<Rightarrow> xc_server_hostname c | Some v \<Rightarrow> v),
            xc_server_username =
              (case xd_server_username data of None \<Rightarrow> xc_server_username c | Some v \<Rightarrow> v),
            xc_config_path = (case xd_config_path data of None \<Rightarrow> xc_config_path c | Some v \<Rightarrow> v),
            xc_parsed_config =
              (case xd_parsed_config data of None \<Rightarrow> xc_parsed_config c | Some v \<Rightarrow> v),
            xc_description = (case xd_description data of None \<Rightarrow> xc_description c | Some v \<Rightarrow> v),
            xc_last_sync_at = (case xd_last_sync_at data of None \<Rightarrow> xc_last_sync_at c | Some v \<Rightarrow> v),
            xc_created_at = (case xd_created_at data of None \<Rightarrow> xc_created_at c | Some v \<Rightarrow> v),
            xc_updated_at = (case xd_updated_at data of None \<Rightarrow> xc_updated_at c | Some v \<Rightarrow> v)\<rparr>"
    by (simp add: spread_def pick_def)
  show ?thesis
    by (simp only: r1 r2 r3 r4 r5 r6 [symmetric] simp_thms)
qed

theorem submitConfigForm_update_frame_witness:
  "fst (snd (submitConfigForm True (Some 1) True list_example (Inr update_data_example)
       (Inl \<lparr>detail = None, error_message = None\<rparr>))) =
     [\<lparr>rq_method = PUT, rq_url = XrayrConfig 1 1,
       rq_body = Some [''name'' \<mapsto> JStr ''Main'', ''config_path'' \<mapsto> JStr ''/opt/xrayr.yml'',
                       ''description'' \<mapsto> JStr ''primary node'']\<rparr>] \<and>
   xl_configs (fst (submitConfigForm True (Some 1) True list_example (Inr update_data_example)
       (Inl \<lparr>detail = None, error_message = None\<rparr>))) =
     [(config_example 1 ''Main'' ''primary node'')\<lparr>xc_config_path := ''/opt/xrayr.yml''\<rparr>,
      config_example 2 ''Backup'' ''spare'',
      config_example 1 ''Shadow'' ''mirror of MAIN''] \<and>
   map xc_last_sync_at (xl_configs (fst (submitConfigForm True (Some 1) True list_example
       (Inr update_data_example) (Inl \<lparr>detail = None, error_message = None\<rparr>)))) =
     [''2025-01-03'', ''2025-01-03'', ''2025-01-03''] \<and>
   xl_configs (fst (submitConfigForm True (Some 1) True list_example
       (Inl \<lparr>detail = Some ''name taken'', error_message = None\<rparr>)
       (Inl \<lparr>detail = None, error_message = None\<rparr>))) = xl_configs list_example"
proof -
  have n: "(1::int) \<noteq> 0" by simp
  have e: "xl_editingConfig list_example = Some (config_example 1 ''Main'' ''primary node'')"
    by (simp add: list_example_def)
  have v: "validate configFormRules (configForm_items (xl_configForm list_example)) = []"
    by (simp add: validate_def validate_field_def rules_for_def configFormRules_def
        configForm_items_def list_example_def plain_rule_def in_range_def is_line_terminator_def)
  have d: "xd_parsed_config update_data_example = None" "xd_last_sync_at update_data_example = None"
    by (simp_all add: update_data_example_def)
  have l: "xl_configs list_example =
     [config_example 1 ''Main'' ''primary node'', config_example 2 ''Backup'' ''spare'',
      config_example 1 ''Shadow'' ''mirror of MAIN'']"
    by (simp add: list_example_def)
  have f: "xl_configForm list_example =
     \<lparr>cf_name = ''Main'', cf_config_path = ''/opt/xrayr.yml'', cf_description = ''primary node''\<rparr>"
    by (simp add: list_example_def)
  have s: "spread (config_example 1 ''Main'' ''primary node'') update_data_example =
     (config_example 1 ''Main'' ''primary node'')\<lparr>xc_config_path := ''/opt/xrayr.yml''\<rparr>"
    by (simp add: spread_def pick_def config_example_def update_data_example_def)
  have i: "xc_id (config_example i m d) = i" "xc_last_sync_at (config_example i m d) = ''2025-01-03''"
    for i m d
    by (simp_all add: config_example_def)
  from submitConfigForm_update_frame [OF n e v, where put_answer = "Inr update_data_example"
      and post_answer = "Inl \<lparr>detail = None, error_message = None\<rparr>"
      and data = update_data_example
      and err = "\<lparr>detail = Some ''name taken'', error_message = None\<rparr>"]
  show ?thesis
    by (simp add: d l s i f)
qed

subsection \<open>Fetching a configuration\<close>

text \<open>
  C7. A fetch whose content was read but does not parse does not abort: it returns
  normally, the raw content is retained, the last-sync time is the call time and the
  parse error is recorded beside the content. In the dialog, an answer that carries
  content and an error shows both, each in its own item, whatever its success flag: that
  the file was read is reported apart from whether it is well formed.
\<close>

theorem fetch_unparseable_content:
  assumes "parse raw = Inl perr"
  shows "snd (fetch parse now (Inr raw) stored) = Inr () \<and>
         sc_raw_content (fst (fetch parse now (Inr raw) stored)) = Some raw \<and>
         sc_last_sync (fst (fetch parse now (Inr raw) stored)) = Some now \<and>
         sc_parse_error (fst (fetch parse now (Inr raw) stored)) = Some perr \<and>
         (sid \<noteq> 0 \<and> raw \<noteq> [] \<and> perr \<noteq> [] \<and>
          cr_config_content d = Some raw \<and> cr_error d = Some perr \<longrightarrow>
            {ConfigContentItem raw, ErrorItem perr} \<subseteq>
              set (dialog_items (fst (XrayRDialog_fetchConfigData True (Some sid) st (Inr d)))))"
  using assms
  by (simp add: fetch_def XrayRDialog_fetchConfigData_def truthy_id_def dialog_items_def
      truthy_string_def Let_def)

theorem fetch_unparseable_content_witness:
  "parse_example ''key: [value'' = Inl ''not a mapping'' \<and>
   fetch parse_example 1700000000 (Inr ''key: [value'') stored_example =
     (stored_example\<lparr>sc_last_sync := Some 1700000000, sc_raw_content := Some ''key: [value'',
                     sc_parse_error := Some ''not a mapping''\<rparr>, Inr ()) \<and>
   dialog_items (fst (XrayRDialog_fetchConfigData True (Some 1)
       \<lparr>dlg_loading = True, dlg_configData = None, dlg_configPath = ''/etc/app/config.yml''\<rparr>
       (Inr \<lparr>cr_success = False, cr_config_content = Some ''key: [value'',
             cr_parsed_config = None, cr_error = Some ''not a mapping''\<rparr>))) =
     [ConfigPathItem ''/etc/app/config.yml'', ConfigContentItem ''key: [value'',
      ErrorItem ''not a mapping'']"
proof -
  have p: "parse_example ''key: [value'' = Inl ''not a mapping''"
    by (simp add: parse_example_def)
  have f: "fetch parse_example 1700000000 (Inr ''key: [value'') stored_example =
     (stored_example\<lparr>sc_last_sync := Some 1700000000, sc_raw_content := Some ''key: [value'',
                     sc_parse_error := Some ''not a mapping''\<rparr>, Inr ())"
    by (simp add: fetch_def p)
  have d: "dialog_items (fst (XrayRDialog_fetchConfigData True (Some 1)
       \<lparr>dlg_loading = True, dlg_configData = None, dlg_configPath = ''/etc/app/config.yml''\<rparr>
       (Inr \<lparr>cr_success = False, cr_config_content = Some ''key: [value'',
             cr_parsed_config = None, cr_error = Some ''not a mapping''\<rparr>))) =
     [ConfigPathItem ''/etc/app/config.yml'', ConfigContentItem ''key: [value'',
      ErrorItem ''not a mapping'']"
    by (simp add: XrayRDialog_fetchConfigData_def truthy_id_def dialog_items_def
        truthy_string_def truthy_json_def Let_def)
  from fetch_unparseable_content [where parse = parse_example and raw = "''key: [value''"
      and perr = "''not a mapping''" and now = 1700000000 and stored = stored_example
      and sid = 1
      and d = "\<lparr>cr_success = False, cr_config_content = Some ''key: [value'',
        cr_parsed_config = None, cr_error = Some ''not a mapping''\<rparr>"
      and st = "\<lparr>dlg_loading = True, dlg_configData = None,
        dlg_configPath = ''/etc/app/config.yml''\<rparr>"] p
  have "sc_raw_content (fst (fetch parse_example 1700000000 (Inr ''key: [value'') stored_example)) =
      Some ''key: [value''"
    by simp
  with p f d show ?thesis by simp
qed

subsection \<open>Parsing the server information\<close>

text \<open>
  C10 as claimed: the value stored for a marked section is the remaining lines joined by
  newlines. It is not: the code trims the joined text (and the key) before storing. For
  the section \<open>###CPU:###\<close> followed by the line \<open> Intel\<close> the remaining lines joined are
  \<open> Intel\<close> with its leading blank, and the value stored under \<open>CPU:\<close> is \<open>Intel\<close>.
\<close>

theorem parse_stdout_value_is_trimmed:
  "join nl (tl (split nl (trim (''###CPU:###'' @ nl @ '' Intel'')))) = '' Intel'' \<and>
   map_of (parse_stdout (''###CPU:###'' @ nl @ '' Intel'')) ''CPU:'' = Some ''Intel''"
  by code_simp

text \<open>
  C10 amended. The parser splits the output at each pair of newlines and folds the
  sections into a map. For a section, take the lines of the section trimmed of white
  space. When the first of them starts with \<open>###\<close>, the value is the remaining lines
  joined by newlines and then trimmed, and the key is that first line with the leading
  and the trailing \<open>###\<close> stripped and then trimmed; the value is stored under the key
  when it is not empty, unless the key is the reserved name \<open>__proto__\<close>, which an
  object does not store. The colon of an emitted \<open>###Name:###\<close> stays in the key. A
  section without the marker, with an empty value or with the key \<open>__proto__\<close>
  contributes nothing. When nothing was stored, the result is the one fixed fallback
  entry.
\<close>

theorem parse_stdout_sections:
  "parse_stdout out =
     (let configs = foldl parse_section [] (split (nl @ nl) out)
      in if configs = [] then [(fallback_key, fallback_value)] else configs) \<and>
   (split nl (trim sec) = first # rest \<longrightarrow>
      (startsWith first ''###'' \<and> trim (join nl rest) \<noteq> [] \<and>
       trim (strip_marks first) \<noteq> ''__proto__'' \<longrightarrow>
         map_of (parse_section configs sec) =
           (map_of configs)(trim (strip_marks first) \<mapsto> trim (join nl rest))) \<and>
      (\<not> startsWith first ''###'' \<or> trim (join nl rest) = [] \<or>
       trim (strip_marks first) = ''__proto__'' \<longrightarrow>
         parse_section configs sec = configs)) \<and>
   strip_marks (''###'' @ name @ '':###'') = name @ '':''"
proof -
  have a: "parse_stdout out =
     (let configs = foldl parse_section [] (split (nl @ nl) out)
      in if configs = [] then [(fallback_key, fallback_value)] else configs)"
    by (simp add: parse_stdout_def Let_def fallback_entry)
  have b: "map_of (parse_section configs sec) =
           (map_of configs)(trim (strip_marks first) \<mapsto> trim (join nl rest))"
    if "split nl (trim sec) = first # rest" "startsWith first ''###''"
      "trim (join nl rest) \<noteq> []" "trim (strip_marks first) \<noteq> ''__proto__''"
  proof -
    from that(2) have "first \<noteq> []"
      by (auto simp: startsWith_def)
    then show ?thesis
      using that by (simp add: parse_section_def Let_def map_of_obj_assign)
  qed
  have c: "parse_section configs sec = configs"
    if "split nl (trim sec) = first # rest"
      "\<not> startsWith first ''###'' \<or> trim (join nl rest) = [] \<or>
       trim (strip_marks first) = ''__proto__''"
    using that by (auto simp: parse_section_def Let_def obj_assign_proto)
  have d: "strip_marks (''###'' @ name @ '':###'') = name @ '':''"
    using strip_marks_marker [of "name @ '':''"] by simp
  from a b c d show ?thesis by blast
qed

theorem parse_stdout_sections_witness:
  "split nl (trim (nl @ ''###CPU:###'' @ nl @ [CHR 0xA0] @ ''Intel '' @ nl)) =
     [''###CPU:###'', [CHR 0xA0] @ ''Intel''] \<and>
   map_of (parse_section [] (nl @ ''###CPU:###'' @ nl @ [CHR 0xA0] @ ''Intel '' @ nl)) =
     [''CPU:'' \<mapsto> ''Intel''] \<and>
   parse_section [(''a'', ''b'')] (''uptime'' @ nl @ ''3 days'') = [(''a'', ''b'')] \<and>
   parse_section [(''a'', ''b'')] (''###__proto__###'' @ nl @ ''x'') = [(''a'', ''b'')] \<and>
   parse_stdout ''uptime'' = [(fallback_key, fallback_value)]"
proof -
  have s1: "split nl (trim (nl @ ''###CPU:###'' @ nl @ [CHR 0xA0] @ ''Intel '' @ nl)) =
      [''###CPU:###'', [CHR 0xA0] @ ''Intel'']"
    by (simp add: split_def nl_def startsWith_def trim_def is_whitespace_def)
  have h1: "startsWith ''###CPU:###'' ''###'' \<and> trim (join nl [[CHR 0xA0] @ ''Intel'']) \<noteq> [] \<and>
      trim (strip_marks ''###CPU:###'') \<noteq> ''__proto__''"
    by (simp add: startsWith_def trim_def is_whitespace_def strip_marks_def endsWith_def)
  have v1: "trim (strip_marks ''###CPU:###'') = ''CPU:''"
    "trim (join nl [[CHR 0xA0] @ ''Intel'']) = ''Intel''"
    by (simp_all add: startsWith_def trim_def is_whitespace_def strip_marks_def endsWith_def)
  have s2: "split nl (trim (''uptime'' @ nl @ ''3 days'')) = [''uptime'', ''3 days'']"
    by (simp add: split_def nl_def startsWith_def trim_def is_whitespace_def)
  have h2: "\<not> startsWith ''uptime'' ''###''"
    by (simp add: startsWith_def)
  have s3: "split nl (trim (''###__proto__###'' @ nl @ ''x'')) = [''###__proto__###'', ''x'']"
    by (simp add: split_def nl_def startsWith_def trim_def is_whitespace_def)
  have h3: "trim (strip_marks ''###__proto__###'') = ''__proto__''"
    by (simp add: startsWith_def trim_def is_whitespace_def strip_marks_def endsWith_def)
  have p: "foldl parse_section [] (split (nl @ nl) ''uptime'') = []"
    by (simp add: parse_section_def split_def nl_def startsWith_def trim_def is_whitespace_def)
  from parse_stdout_sections [where sec = "nl @ ''###CPU:###'' @ nl @ [CHR 0xA0] @ ''Intel '' @ nl"
      and first = "''###CPU:###''" and rest = "[[CHR 0xA0] @ ''Intel'']" and configs = "[]"]
    s1 h1 v1
  have w1: "map_of (parse_section [] (nl @ ''###CPU:###'' @ nl @ [CHR 0xA0] @ ''Intel '' @ nl)) =
      [''CPU:'' \<mapsto> ''Intel'']"
    by simp
  from parse_stdout_sections [where sec = "''uptime'' @ nl @ ''3 days''"
      and first = "''uptime''" and rest = "[''3 days'']" and configs = "[(''a'', ''b'')]"] s2 h2
  have w2: "parse_section [(''a'', ''b'')] (''uptime'' @ nl @ ''3 days'') = [(''a'', ''b'')]"
    by simp
  from parse_stdout_sections [where sec = "''###__proto__###'' @ nl @ ''x''"
      and first = "''###__proto__###''" and rest = "[''x'']" and configs = "[(''a'', ''b'')]"] s3 h3
  have w3: "parse_section [(''a'', ''b'')] (''###__proto__###'' @ nl @ ''x'') = [(''a'', ''b'')]"
    by simp
  from parse_stdout_sections [where out = "''uptime''"] p
  have w4: "parse_stdout ''uptime'' = [(fallback_key, fallback_value)]"
    by simp
  from s1 w1 w2 w3 w4 show ?thesis by blast
qed

end
